theory Spec2Isabelle
  imports Complex_Main "HOL-Library.Log_Nat"
begin

section \<open>Errors\<close>

text \<open>
  Every failure of the JavaScript sources is a \<^verbatim>\<open>throw new Error(message)\<close> (or a rejected
  storage call). The constructors name the messages of the sources.
\<close>

datatype error =
    InvalidVPAFormat                 \<comment> \<open>\<^verbatim>\<open>'Invalid VPA format'\<close>\<close>
  | InvalidResponseFormat nat        \<comment> \<open>\<^verbatim>\<open>'Invalid HDFC response format. Expected 21 fields, got n'\<close>\<close>
  | AmountOutsideLimits              \<comment> \<open>\<^verbatim>\<open>'Amount ... is outside allowed limits'\<close>\<close>
  | TransactionTooOld                \<comment> \<open>\<^verbatim>\<open>'Transaction is older than 24 hours'\<close>\<close>
  | FailedToDecrypt                  \<comment> \<open>\<^verbatim>\<open>'Failed to decrypt webhook data'\<close>\<close>
  | MerchantKeyNotConfigured         \<comment> \<open>\<^verbatim>\<open>'Merchant key not configured'\<close>\<close>
  | InvalidChecksum                  \<comment> \<open>\<^verbatim>\<open>'Invalid checksum - possible data tampering'\<close>\<close>
  | InvalidQRCode                    \<comment> \<open>\<^verbatim>\<open>'Invalid QR code'\<close>\<close>
  | NotEligibleForRefund             \<comment> \<open>\<^verbatim>\<open>'Transaction not found or not eligible for refund'\<close>\<close>
  | RefundExceedsAmount              \<comment> \<open>\<^verbatim>\<open>'Refund amount cannot exceed transaction amount'\<close>\<close>
  | StorageError string              \<comment> \<open>a storage call rejected, with the driver's message\<close>

section \<open>VPA codec (\<^verbatim>\<open>VPAService\<close> in services/vpaService.js)\<close>

text \<open>
  JavaScript strings are modelled as \<^typ>\<open>string\<close>; a \<^typ>\<open>char\<close> stands for a code unit
  below 256.
\<close>

definition VPA_DOMAIN :: string where
  "VPA_DOMAIN = ''@okhdfcbank''"

definition VPA_PREFIX :: string where
  "VPA_PREFIX = ''sabpaisa.''"

definition IDENTIFIER_LENGTH :: nat where
  "IDENTIFIER_LENGTH = 5"

definition IDENTIFIER_CHARS :: string where
  "IDENTIFIER_CHARS = ''ABCDEFGHIJKLMNOPQRSTUVWXYZ0123456789''"

text \<open>
  The regular expressions of the service are built by interpolating the constants above into
  a pattern text. All patterns used are anchored at both ends and made of items that consume
  exactly one character: a literal, the dot, or a bracket class of ranges.
\<close>

datatype re_item =
    Lit char                        \<comment> \<open>an ordinary pattern character\<close>
  | Dot                             \<comment> \<open>\<^verbatim>\<open>.\<close>: any character but a line terminator\<close>
  | Class "(char \<times> char) list"     \<comment> \<open>\<^verbatim>\<open>[a-bc-d]\<close>: a union of inclusive ranges\<close>

definition line_terminator :: "char \<Rightarrow> bool" where
  "line_terminator c = (c = CHR 0x0A \<or> c = CHR 0x0D)"

fun in_ranges :: "(char \<times> char) list \<Rightarrow> char \<Rightarrow> bool" where
  "in_ranges [] c = False"
| "in_ranges ((lo, hi) # rs) c =
     (((of_char lo :: nat) \<le> of_char c \<and> (of_char c :: nat) \<le> of_char hi) \<or> in_ranges rs c)"

fun item_matches :: "re_item \<Rightarrow> char \<Rightarrow> bool" where
  "item_matches (Lit d) c = (c = d)"
| "item_matches Dot c = (\<not> line_terminator c)"
| "item_matches (Class rs) c = in_ranges rs c"

text \<open>\<^verbatim>\<open>new RegExp('^' + items + '$').test(s)\<close>: the whole of \<open>s\<close> is matched, item by item.\<close>

fun re_test :: "re_item list \<Rightarrow> string \<Rightarrow> bool" where
  "re_test [] [] = True"
| "re_test (i # is) (c # cs) = (item_matches i c \<and> re_test is cs)"
| "re_test _ _ = False"

text \<open>
  Pattern text that comes from an interpolated constant is read by the regular expression
  compiler like any other pattern text: a dot in it is the dot metacharacter. (The
  constants hold letters, a dot and an at sign only.)
\<close>

fun re_of_char :: "char \<Rightarrow> re_item" where
  "re_of_char c = (if c = CHR ''.'' then Dot else Lit c)"

definition re_of_text :: "string \<Rightarrow> re_item list" where
  "re_of_text s = map re_of_char s"

text \<open>\<^verbatim>\<open>s.substring(a, b)\<close>: both indices are clamped to the length and swapped when out of order.\<close>

definition substring :: "string \<Rightarrow> nat \<Rightarrow> nat \<Rightarrow> string" where
  "substring s a b =
     (let a' = min a (length s); b' = min b (length s);
          lo = min a' b'; hi = max a' b'
      in take (hi - lo) (drop lo s))"

definition formatVPA :: "string \<Rightarrow> string" where
  "formatVPA identifier = VPA_PREFIX @ identifier @ VPA_DOMAIN"

definition validateVPAFormat :: "string \<Rightarrow> bool" where
  "validateVPAFormat vpa =
     re_test (re_of_text VPA_PREFIX
              @ replicate IDENTIFIER_LENGTH (Class [(CHR ''A'', CHR ''Z''), (CHR ''0'', CHR ''9'')])
              @ re_of_text VPA_DOMAIN) vpa"

definition extractIdentifier :: "string \<Rightarrow> error + string" where
  "extractIdentifier vpa =
     (if \<not> validateVPAFormat vpa then Inl InvalidVPAFormat
      else let start = length VPA_PREFIX; end' = start + IDENTIFIER_LENGTH
           in Inr (substring vpa start end'))"

text \<open>
  \<^verbatim>\<open>validateIdentifierFormat\<close>: a falsy (empty) identifier or one of another length is refused,
  then every character must be one of \<open>IDENTIFIER_CHARS\<close> (the bracket class lists them one by
  one).
\<close>

definition validateIdentifierFormat :: "string \<Rightarrow> bool" where
  "validateIdentifierFormat identifier =
     (if identifier = [] \<or> length identifier \<noteq> IDENTIFIER_LENGTH then False
      else re_test (replicate IDENTIFIER_LENGTH (Class (map (\<lambda>c. (c, c)) IDENTIFIER_CHARS)))
             identifier)"

section \<open>JavaScript numbers\<close>

text \<open>
  A JavaScript number is NaN, an infinity, or a finite binary64 value, kept as the rational
  it denotes. The two zeros are not told apart: they compare equal and both are falsy.
\<close>

datatype jsnum = NaN | PosInf | NegInf | Fin rat

text \<open>The relational operator \<^verbatim>\<open>a < b\<close>: false as soon as one side is NaN.\<close>

fun js_lt :: "jsnum \<Rightarrow> jsnum \<Rightarrow> bool" where
  "js_lt NaN b = False"
| "js_lt a NaN = False"
| "js_lt PosInf b = False"
| "js_lt NegInf NegInf = False"
| "js_lt NegInf b = True"
| "js_lt (Fin x) PosInf = True"
| "js_lt (Fin x) NegInf = False"
| "js_lt (Fin x) (Fin y) = (x < y)"

definition js_gt :: "jsnum \<Rightarrow> jsnum \<Rightarrow> bool" where
  "js_gt a b = js_lt b a"

text \<open>\<^verbatim>\<open>ToBoolean\<close> of a number: NaN and zero are falsy.\<close>

fun truthy :: "jsnum \<Rightarrow> bool" where
  "truthy NaN = False"
| "truthy (Fin x) = (x \<noteq> 0)"
| "truthy PosInf = True"
| "truthy NegInf = True"

text \<open>\<^verbatim>\<open>x || 0\<close>\<close>

definition or_zero :: "jsnum \<Rightarrow> jsnum" where
  "or_zero x = (if truthy x then x else Fin 0)"

fun is_finite :: "jsnum \<Rightarrow> bool" where
  "is_finite (Fin x) = True"
| "is_finite _ = False"

subsection \<open>Rounding to binary64\<close>

text \<open>\<open>floor_log2 a\<close> is the integer \<open>e\<close> with \<open>2^e \<le> a < 2^(e+1)\<close>, for \<open>a > 0\<close>.\<close>

definition floor_log2 :: "rat \<Rightarrow> int" where
  "floor_log2 a =
     (let (p, d) = quotient_of a; k = bitlen p - bitlen d
      in if 2 powi k \<le> a then k else k - 1)"

definition round_half_even :: "rat \<Rightarrow> int" where
  "round_half_even x =
     (let f = \<lfloor>x\<rfloor>; d = x - of_int f
      in if d < 1 / 2 then f else if d > 1 / 2 then f + 1 else if even f then f else f + 1)"

text \<open>
  Round to nearest, ties to even, with 53 significant bits, the least exponent -1022
  (subnormals below it) and overflow to an infinity from \<open>2^1024\<close> on.
\<close>

definition round_to_double :: "rat \<Rightarrow> jsnum" where
  "round_to_double q =
     (if q = 0 then Fin 0
      else let a = \<bar>q\<bar>; e = max (floor_log2 a) (- 1022); u = 2 powi (e - 52);
               r = of_int (round_half_even (a / u)) * u
           in if 2 ^ 1024 \<le> r then (if q < 0 then NegInf else PosInf)
              else Fin (if q < 0 then - r else r))"

subsection \<open>\<^verbatim>\<open>parseFloat\<close>\<close>

text \<open>
  \<^verbatim>\<open>parseFloat(s)\<close> skips leading white space, takes the longest prefix that is a
  \<^verbatim>\<open>StrDecimalLiteral\<close> (an optional sign, then \<^verbatim>\<open>Infinity\<close> or decimal digits with an
  optional fraction and an optional exponent) and returns its value, rounded; NaN when no
  prefix is one.
\<close>

definition str_whitespace :: "char \<Rightarrow> bool" where
  "str_whitespace c =
     (c \<in> {CHR 0x09, CHR 0x0A, CHR 0x0B, CHR 0x0C, CHR 0x0D, CHR 0x20, CHR 0xA0})"

definition is_digit :: "char \<Rightarrow> bool" where
  "is_digit c = (c \<in> set ''0123456789'')"

definition digit_val :: "char \<Rightarrow> int" where
  "digit_val c = of_char c - 48"

definition digits_val :: "string \<Rightarrow> int" where
  "digits_val ds = foldl (\<lambda>n c. 10 * n + digit_val c) 0 ds"

text \<open>An optional sign at the head of a text: whether it is a minus, and the rest.\<close>

fun strip_sign :: "string \<Rightarrow> bool \<times> string" where
  "strip_sign [] = (False, [])"
| "strip_sign (c # cs) =
     (if c = CHR ''-'' then (True, cs) else if c = CHR ''+'' then (False, cs)
      else (False, c # cs))"

text \<open>The value of the \<^verbatim>\<open>ExponentPart\<close> at the head of a text, 0 when there is none.\<close>

fun exponent_part :: "string \<Rightarrow> int" where
  "exponent_part [] = 0"
| "exponent_part (c # cs) =
     (if c = CHR ''e'' \<or> c = CHR ''E''
      then (let (neg, r) = strip_sign cs; ds = takeWhile is_digit r
            in if ds = [] then 0
               else if neg then - digits_val ds else digits_val ds)
      else 0)"

text \<open>The fraction at the head of a text: the digits after a dot, and the rest.\<close>

fun fraction_part :: "string \<Rightarrow> string \<times> string" where
  "fraction_part [] = ([], [])"
| "fraction_part (c # cs) =
     (if c = CHR ''.'' then (takeWhile is_digit cs, dropWhile is_digit cs) else ([], c # cs))"

definition unsigned_decimal :: "string \<Rightarrow> rat option" where
  "unsigned_decimal s =
     (let ds1 = takeWhile is_digit s;
          (ds2, r) = fraction_part (dropWhile is_digit s)
      in if ds1 = [] \<and> ds2 = [] then None
         else Some (of_int (digits_val (ds1 @ ds2))
                    * 10 powi (exponent_part r - int (length ds2))))"

definition parseFloat :: "string \<Rightarrow> jsnum" where
  "parseFloat s =
     (let (neg, u) = strip_sign (dropWhile str_whitespace s)
      in if take 8 u = ''Infinity'' then (if neg then NegInf else PosInf)
         else case unsigned_decimal u of
                None \<Rightarrow> NaN
              | Some v \<Rightarrow> round_to_double (if neg then - v else v))"

section \<open>Webhook decoder and validator (\<^verbatim>\<open>EncryptionUtil\<close>, \<^verbatim>\<open>TransactionValidator\<close> in routes/health.js)\<close>

text \<open>
  \<^verbatim>\<open>s.split(sep)\<close> for a one-character separator: the text is scanned once, \<open>cur\<close> holding
  the field being read (backwards); the empty text gives one empty field.
\<close>

fun split_from :: "char \<Rightarrow> string \<Rightarrow> string \<Rightarrow> string list" where
  "split_from sep cur [] = [rev cur]"
| "split_from sep cur (c # cs) =
     (if c = sep then rev cur # split_from sep [] cs else split_from sep (c # cur) cs)"

definition split :: "char \<Rightarrow> string \<Rightarrow> string list" where
  "split sep s = split_from sep [] s"

record hdfc_response =
  merchantId :: string
  merchantName :: string
  terminalId :: string
  transactionId :: string
  bankRRN :: string
  merchantTxnId :: string
  amount :: jsnum
  transactionStatus :: string
  statusCode :: string
  statusDescription :: string
  payerVPA :: string
  payerName :: string
  mobileNumber :: string
  transactionDateTime :: string
  settlementAmount :: jsnum
  settlementDateTime :: string
  paymentMode :: string
  mcc :: string
  tipAmount :: jsnum
  convenienceFee :: jsnum
  checksum :: string

definition parseHDFCResponse :: "string \<Rightarrow> error + hdfc_response" where
  "parseHDFCResponse decryptedData =
     (let fields = split (CHR ''|'') decryptedData
      in if length fields \<noteq> 21 then Inl (InvalidResponseFormat (length fields))
         else Inr \<lparr>
           merchantId = fields ! 0,
           merchantName = fields ! 1,
           terminalId = fields ! 2,
           transactionId = fields ! 3,
           bankRRN = fields ! 4,
           merchantTxnId = fields ! 5,
           amount = parseFloat (fields ! 6),
           transactionStatus = fields ! 7,
           statusCode = fields ! 8,
           statusDescription = fields ! 9,
           payerVPA = fields ! 10,
           payerName = fields ! 11,
           mobileNumber = fields ! 12,
           transactionDateTime = fields ! 13,
           settlementAmount = parseFloat (fields ! 14),
           settlementDateTime = fields ! 15,
           paymentMode = fields ! 16,
           mcc = fields ! 17,
           tipAmount = or_zero (parseFloat (fields ! 18)),
           convenienceFee = or_zero (parseFloat (fields ! 19)),
           checksum = fields ! 20 \<rparr>)"

text \<open>\<^verbatim>\<open>TransactionValidator.validateAmount\<close>, with its limits 1 and 100000.\<close>

definition limits_min :: jsnum where
  "limits_min = Fin 1"

definition limits_max :: jsnum where
  "limits_max = Fin 100000"

definition validateAmount :: "jsnum \<Rightarrow> error + bool" where
  "validateAmount amount' =
     (if js_lt amount' limits_min \<or> js_gt amount' limits_max then Inl AmountOutsideLimits
      else Inr True)"

text \<open>
  Text that \<^verbatim>\<open>parseFloat\<close> cannot read as a number: what follows the leading white space and
  an optional sign is not \<^verbatim>\<open>Infinity\<close> and starts neither with a digit nor with a dot before
  a digit.
\<close>

definition no_numeric_prefix :: "string \<Rightarrow> bool" where
  "no_numeric_prefix s =
     (let u = snd (strip_sign (dropWhile str_whitespace s))
      in take 8 u \<noteq> ''Infinity''
         \<and> (case u of
               [] \<Rightarrow> True
             | c # cs \<Rightarrow>
                 \<not> is_digit c
                 \<and> \<not> (c = CHR ''.'' \<and> (case cs of [] \<Rightarrow> False | d # ds \<Rightarrow> is_digit d))))"

subsection \<open>Sample payloads\<close>

text \<open>The payload of the test endpoint, with fixed times and identifiers.\<close>

definition sample_plaintext :: string where
  "sample_plaintext = ''HDFC000010380443|Test Merchant|TERM001|TEST1|RRN1|STQABCDE1700000000000|100.00|SUCCESS|00|Success|test@paytm|Test User|9999999999|2024-01-01T00:00:00.000Z|100.00|2024-01-01T00:00:00.000Z|UPI|5499|0|0|TEST_CHECKSUM''"

text \<open>Twenty-one fields whose four numeric positions hold no number.\<close>

definition sample_non_numeric :: string where
  "sample_non_numeric = ''M1|Shop|T1|TXN1|RRN1|STQABCDE1700000000000|abc|SUCCESS|00|Success|a@b|A|9|2024|.|2024|UPI|5499|-|INR 5|CS''"

text \<open>Twenty-one fields with infinite tip and fee.\<close>

definition sample_infinite_tip :: string where
  "sample_infinite_tip = ''M1|Shop|T1|TXN1|RRN1|STQABCDE1700000000000|abc|SUCCESS|00|Success|a@b|A|9|2024|xyz|2024|UPI|5499|Infinity|-Infinity|CS''"

section \<open>The outside world of one delivery\<close>

text \<open>
  The handler calls libraries and services that are not part of the sources: CryptoJS, the
  HMAC of Node's \<^verbatim>\<open>crypto\<close>, the conversion of a number to text, the clock, the binding of a
  JavaScript number to a DECIMAL column by the database driver, and the storage layer, whose
  calls may be rejected. A \<open>world\<close> fixes what they answer during one delivery; the general
  theorems on the handler are stated for all worlds.
\<close>

record world =
  aes_decrypt :: "string \<Rightarrow> string \<Rightarrow> string option"
    \<comment> \<open>\<^verbatim>\<open>CryptoJS.AES.decrypt(text, key, ECB, Pkcs7).toString(Utf8)\<close>, \<open>None\<close> when it throws\<close>
  hmac_sha256 :: "string \<Rightarrow> string \<Rightarrow> string"
    \<comment> \<open>\<^verbatim>\<open>createHmac('sha256', key).update(text).digest('hex').toUpperCase()\<close>\<close>
  number_to_string :: "jsnum \<Rightarrow> string"
  hours_since :: "string \<Rightarrow> jsnum"
    \<comment> \<open>\<^verbatim>\<open>(new Date() - new Date(timestamp)) / (1000 * 60 * 60)\<close>\<close>
  to_decimal :: "jsnum \<Rightarrow> rat option"
    \<comment> \<open>the DECIMAL value bound for a number, \<open>None\<close> when the statement is rejected\<close>
  today :: string                 \<comment> \<open>\<^verbatim>\<open>moment().format('YYYY-MM-DD')\<close>\<close>
  current_timestamp :: string     \<comment> \<open>\<^verbatim>\<open>CURRENT_TIMESTAMP\<close>\<close>
  date_now :: string              \<comment> \<open>\<^verbatim>\<open>Date.now()\<close>, as text\<close>
  iso_now :: string               \<comment> \<open>\<^verbatim>\<open>new Date().toISOString()\<close>\<close>
  new_refund_id :: string         \<comment> \<open>the date and random suffix of a refund id\<close>
  lookup_fault :: "error option"
    \<comment> \<open>the error with which the queries of \<^verbatim>\<open>getTransactionDetails\<close> are rejected, if any\<close>
  store_fault :: "error option"
    \<comment> \<open>the error with which the connection of a transaction is rejected, if any\<close>

text \<open>The process environment.\<close>

record env =
  NODE_ENV :: "string option"
  HDFC_MERCHANT_KEY :: "string option"

text \<open>\<^verbatim>\<open>!x\<close> for a text that may be undefined: undefined and the empty text are falsy.\<close>

fun falsy :: "string option \<Rightarrow> bool" where
  "falsy None = True"
| "falsy (Some s) = (s = [])"

text \<open>The text of a value that is not falsy.\<close>

fun text_of :: "string option \<Rightarrow> string" where
  "text_of None = []"
| "text_of (Some s) = s"

section \<open>Storage (\<^verbatim>\<open>QRTransactionService\<close> in services/QRTransactionService.js)\<close>

text \<open>
  The tables that the service writes, with the columns it names. The status column is an
  enumeration; amounts are decimals. The identifier of a webhook event is random and is
  left out. Triggers of the schema files (which only write audit rows and time stamps) are
  not modelled.
\<close>

datatype txn_status =
  Initiated | Pending | Success | Failed | Timeout | Refunded | PartialRefunded

fun status_text :: "txn_status \<Rightarrow> string" where
  "status_text Initiated = ''initiated''"
| "status_text Pending = ''pending''"
| "status_text Success = ''success''"
| "status_text Failed = ''failed''"
| "status_text Timeout = ''timeout''"
| "status_text Refunded = ''refunded''"
| "status_text PartialRefunded = ''partial_refunded''"

record qr_code =
  qc_id :: nat
  qc_qr_identifier :: string

record qr_transaction =
  t_id :: nat
  t_transaction_id :: string
  t_qr_code_id :: nat
  t_merchant_id :: string
  t_amount :: rat
  t_customer_vpa :: string
  t_customer_name :: string
  t_reference_number :: string
  t_bank_reference_number :: string
  t_status :: txn_status
  t_payment_method :: string
  t_settlement_status :: "string option"
  t_completed_at :: "string option"
  t_refund_amount :: "rat option"
  t_refund_reason :: "string option"
  t_refund_initiated_by :: "string option"
  t_refund_initiated_at :: "string option"

record daily_stats =
  ds_merchant_id :: string
  ds_qr_code_id :: nat
  ds_stat_date :: string
  total_transactions :: nat
  successful_transactions :: nat
  total_amount :: rat
  successful_amount :: rat

record webhook_data =
  wd_transaction_id :: string
  wd_merchant_id :: string
  wd_qr_identifier :: string
  wd_amount :: jsnum
  wd_customer_vpa :: string
  wd_customer_name :: string
  wd_reference_number :: string
  wd_bank_reference_number :: string
  wd_status :: txn_status
  wd_payment_method :: string

record webhook_event =
  ev_event_type :: string
  ev_transaction_id :: string
  ev_payload :: webhook_data
  ev_status :: string

datatype refund_type = Full | Partial

record refund_audit =
  ra_transaction_id :: string
  ra_refund_id :: string
  ra_original_amount :: rat
  ra_refund_amount :: rat
  ra_refund_type :: refund_type
  ra_initiated_by :: string
  ra_refund_reason :: string
  ra_status :: string

record database =
  qr_codes :: "qr_code list"
  qr_transactions :: "qr_transaction list"
  qr_daily_stats :: "daily_stats list"
  qr_webhook_events :: "webhook_event list"
  qr_refund_audit :: "refund_audit list"

subsection \<open>\<^verbatim>\<open>getTransactionDetails\<close>\<close>

text \<open>
  The result is \<^verbatim>\<open>{success: false, error: NOT_FOUND}\<close> or \<^verbatim>\<open>{success: true, data}\<close>; of the
  data only the transaction row is kept. A rejected query is rethrown.
\<close>

datatype details = NotFound | Found qr_transaction

fun success :: "details \<Rightarrow> bool" where
  "success NotFound = False"
| "success (Found t) = True"

definition getTransactionDetails ::
  "world \<Rightarrow> database \<Rightarrow> string \<Rightarrow> string \<Rightarrow> error + details" where
  "getTransactionDetails W db transactionId' merchantId' =
     (case lookup_fault W of
        Some e \<Rightarrow> Inl e
      | None \<Rightarrow>
          (case filter (\<lambda>t. t_transaction_id t = transactionId' \<and> t_merchant_id t = merchantId')
                  (qr_transactions db) of
             [] \<Rightarrow> Inr NotFound
           | t # ts \<Rightarrow> Inr (Found t)))"

subsection \<open>\<^verbatim>\<open>updateDailyStats\<close>\<close>

text \<open>
  \<^verbatim>\<open>INSERT ... VALUES (?, ?, ?, 1, 1, ?, ?) ON DUPLICATE KEY UPDATE\<close> on the unique key
  (merchant, QR code, date): the row of the key has its counters raised by one and its
  totals by the amount, or a new row is added.
\<close>

fun upsert_stats :: "string \<Rightarrow> nat \<Rightarrow> string \<Rightarrow> rat \<Rightarrow> daily_stats list \<Rightarrow> daily_stats list" where
  "upsert_stats m q d a [] =
     [\<lparr> ds_merchant_id = m, ds_qr_code_id = q, ds_stat_date = d,
         total_transactions = 1, successful_transactions = 1,
         total_amount = a, successful_amount = a \<rparr>]"
| "upsert_stats m q d a (r # rs) =
     (if ds_merchant_id r = m \<and> ds_qr_code_id r = q \<and> ds_stat_date r = d
      then r \<lparr> total_transactions := total_transactions r + 1,
               successful_transactions := successful_transactions r + 1,
               total_amount := total_amount r + a,
               successful_amount := successful_amount r + a \<rparr> # rs
      else r # upsert_stats m q d a rs)"

definition updateDailyStats ::
  "world \<Rightarrow> database \<Rightarrow> string \<Rightarrow> nat \<Rightarrow> jsnum \<Rightarrow> error + database" where
  "updateDailyStats W db merchantId' qrCodeId amount' =
     (case to_decimal W amount' of
        None \<Rightarrow> Inl (StorageError ''statement rejected'')
      | Some a \<Rightarrow>
          Inr (db \<lparr> qr_daily_stats :=
                      upsert_stats merchantId' qrCodeId (today W) a (qr_daily_stats db) \<rparr>))"

text \<open>
  The daily counters of a merchant for a QR code and a date, as a reader of the table finds
  them: the four counters of the row of that key, or zeros when there is no such row.
\<close>

definition daily_counters ::
  "daily_stats list \<Rightarrow> string \<Rightarrow> nat \<Rightarrow> string \<Rightarrow> nat \<times> nat \<times> rat \<times> rat" where
  "daily_counters rows m q d =
     (case filter (\<lambda>r. ds_merchant_id r = m \<and> ds_qr_code_id r = q \<and> ds_stat_date r = d) rows of
        [] \<Rightarrow> (0, 0, 0, 0)
      | r # rs \<Rightarrow> (total_transactions r, successful_transactions r,
                   total_amount r, successful_amount r))"

subsection \<open>\<^verbatim>\<open>processTransactionWebhook\<close>\<close>

definition next_id :: "qr_transaction list \<Rightarrow> nat" where
  "next_id rows = Suc (foldr max (map t_id rows) 0)"

text \<open>The \<^verbatim>\<open>UPDATE\<close> of the branch for an existing transaction.\<close>

definition update_existing :: "world \<Rightarrow> webhook_data \<Rightarrow> qr_transaction \<Rightarrow> qr_transaction" where
  "update_existing W wd t =
     (if t_transaction_id t = wd_transaction_id wd
      then t \<lparr> t_status := wd_status wd,
               t_bank_reference_number := wd_bank_reference_number wd,
               t_completed_at := Some (current_timestamp W),
               t_settlement_status :=
                 (if wd_status wd = Success then Some ''pending'' else t_settlement_status t) \<rparr>
      else t)"

text \<open>The row of the \<^verbatim>\<open>INSERT\<close> of the branch for a new transaction.\<close>

definition new_row :: "database \<Rightarrow> webhook_data \<Rightarrow> qr_code \<Rightarrow> rat \<Rightarrow> qr_transaction" where
  "new_row db wd qrCode a =
     \<lparr> t_id = next_id (qr_transactions db),
       t_transaction_id = wd_transaction_id wd,
       t_qr_code_id = qc_id qrCode,
       t_merchant_id = wd_merchant_id wd,
       t_amount = a,
       t_customer_vpa = wd_customer_vpa wd,
       t_customer_name = wd_customer_name wd,
       t_reference_number = wd_reference_number wd,
       t_bank_reference_number = wd_bank_reference_number wd,
       t_status = wd_status wd,
       t_payment_method = wd_payment_method wd,
       t_settlement_status = (if wd_status wd = Success then Some ''pending'' else None),
       t_completed_at = None,
       t_refund_amount = None,
       t_refund_reason = None,
       t_refund_initiated_by = None,
       t_refund_initiated_at = None \<rparr>"

definition upsert_transaction ::
  "world \<Rightarrow> database \<Rightarrow> webhook_data \<Rightarrow> qr_code \<Rightarrow> error + database" where
  "upsert_transaction W db wd qrCode =
     (case filter (\<lambda>t. t_transaction_id t = wd_transaction_id wd) (qr_transactions db) of
        t # ts \<Rightarrow>
          Inr (db \<lparr> qr_transactions := map (update_existing W wd) (qr_transactions db) \<rparr>)
      | [] \<Rightarrow>
          (case to_decimal W (wd_amount wd) of
             None \<Rightarrow> Inl (StorageError ''statement rejected'')
           | Some a \<Rightarrow>
               Inr (db \<lparr> qr_transactions := qr_transactions db @ [new_row db wd qrCode a] \<rparr>)))"

definition log_webhook_event :: "database \<Rightarrow> webhook_data \<Rightarrow> database" where
  "log_webhook_event db wd =
     db \<lparr> qr_webhook_events := qr_webhook_events db @
            [\<lparr> ev_event_type = ''transaction.'' @ status_text (wd_status wd),
               ev_transaction_id = wd_transaction_id wd,
               ev_payload = wd,
               ev_status = ''processed'' \<rparr>] \<rparr>"

text \<open>
  The whole function runs in one database transaction: a result \<open>Inl e\<close> is the rollback
  followed by the rethrown error, and the caller keeps the database it had; \<open>Inr db'\<close> is
  the committed database.
\<close>

definition processTransactionWebhook ::
  "world \<Rightarrow> database \<Rightarrow> webhook_data \<Rightarrow> error + database" where
  "processTransactionWebhook W db wd =
     (case store_fault W of
        Some e \<Rightarrow> Inl e
      | None \<Rightarrow>
          (case filter (\<lambda>q. qc_qr_identifier q = wd_qr_identifier wd) (qr_codes db) of
             [] \<Rightarrow> Inl InvalidQRCode
           | qrCode # qs \<Rightarrow>
               (case upsert_transaction W db wd qrCode of
                  Inl e \<Rightarrow> Inl e
                | Inr db1 \<Rightarrow>
                    (case (if wd_status wd = Success
                           then updateDailyStats W db1 (wd_merchant_id wd) (qc_id qrCode)
                                  (wd_amount wd)
                           else Inr db1) of
                       Inl e \<Rightarrow> Inl e
                     | Inr db2 \<Rightarrow> Inr (log_webhook_event db2 wd)))))"

subsection \<open>\<^verbatim>\<open>initiateRefund\<close>\<close>


text \<open>
  The function awaits its statements one by one on its connection and takes no lock (the
  \<^verbatim>\<open>SELECT\<close> is not \<^verbatim>\<open>FOR UPDATE\<close>), so another writer can commit between the \<^verbatim>\<open>SELECT\<close>
  and the \<^verbatim>\<open>UPDATE\<close>. It is therefore written in two parts: the selection, which reads the
  database, and the writes, which act on the database as it is when they run.
\<close>






section \<open>Local transaction store (\<^verbatim>\<open>LocalTransactionStore\<close> in services/vpaService.js)\<close>

text \<open>
  The file of transactions used in development, as the list it holds. Reading and writing
  the file are taken to succeed.
\<close>

record local_transaction =
  lt_id :: nat
  lt_transactionId :: string
  lt_qrId :: string
  lt_merchantName :: string
  lt_merchantTxnId :: string
  lt_bankRRN :: string
  lt_amount :: jsnum
  lt_status :: string
  lt_payerVPA :: string
  lt_payerName :: string
  lt_mobileNumber :: string
  lt_transactionDate :: string
  lt_settlementAmount :: jsnum
  lt_settlementDate :: string
  lt_paymentMode :: string
  lt_statusDescription :: string
  lt_mcc :: string
  lt_tipAmount :: jsnum
  lt_convenienceFee :: jsnum
  lt_netAmount :: jsnum
  lt_checksum :: string
  lt_createdAt :: string

text \<open>\<^verbatim>\<open>s || d\<close> on texts: the empty text is falsy.\<close>

definition or_text :: "string \<Rightarrow> string \<Rightarrow> string" where
  "or_text s d = (if s = [] then d else s)"

text \<open>
  \<^verbatim>\<open>saveTransaction\<close>: a transaction whose id is already in the file is reported as a
  duplicate and nothing is written. \<^verbatim>\<open>parseFloat\<close> of a number gives the number back;
  \<^verbatim>\<open>netAmount\<close> is not a field of the parsed response, and \<^verbatim>\<open>parseFloat(undefined)\<close> is NaN.
\<close>

definition saveTransaction ::
  "world \<Rightarrow> local_transaction list \<Rightarrow> hdfc_response \<Rightarrow> local_transaction list" where
  "saveTransaction W transactions td =
     (case filter (\<lambda>t. lt_transactionId t = transactionId td) transactions of
        t # ts \<Rightarrow> transactions
      | [] \<Rightarrow> transactions @
          [\<lparr> lt_id = length transactions + 1,
             lt_transactionId = or_text (transactionId td) (''TXN'' @ date_now W),
             lt_qrId = or_text (substring (merchantTxnId td) 3 9) ''QR001'',
             lt_merchantName = or_text (merchantName td) ''Merchant'',
             lt_merchantTxnId = merchantTxnId td,
             lt_bankRRN = bankRRN td,
             lt_amount = amount td,
             lt_status = transactionStatus td,
             lt_payerVPA = payerVPA td,
             lt_payerName = payerName td,
             lt_mobileNumber = mobileNumber td,
             lt_transactionDate = transactionDateTime td,
             lt_settlementAmount = settlementAmount td,
             lt_settlementDate = settlementDateTime td,
             lt_paymentMode = paymentMode td,
             lt_statusDescription = statusDescription td,
             lt_mcc = mcc td,
             lt_tipAmount = or_zero (tipAmount td),
             lt_convenienceFee = or_zero (convenienceFee td),
             lt_netAmount = NaN,
             lt_checksum = checksum td,
             lt_createdAt = iso_now W \<rparr>])"

section \<open>Webhook handler (the HDFC webhook route in routes/health.js)\<close>

subsection \<open>Decryption and checksum\<close>

definition decryptAES128 :: "world \<Rightarrow> string \<Rightarrow> string \<Rightarrow> error + string" where
  "decryptAES128 W encryptedText key =
     (case aes_decrypt W encryptedText key of
        None \<Rightarrow> Inl FailedToDecrypt
      | Some plain \<Rightarrow> Inr plain)"

datatype jsval = Str string | Num jsnum

fun to_text :: "world \<Rightarrow> jsval \<Rightarrow> string" where
  "to_text W (Str s) = s"
| "to_text W (Num n) = number_to_string W n"

text \<open>\<^verbatim>\<open>xs.join(sep)\<close>\<close>

fun join :: "string \<Rightarrow> string list \<Rightarrow> string" where
  "join sep [] = []"
| "join sep [x] = x"
| "join sep (x # y # ys) = x @ sep @ join sep (y # ys)"

text \<open>
  \<^verbatim>\<open>checksumData = { ...transactionData }; delete checksumData.checksum\<close>, as the list
  \<^verbatim>\<open>Object.values(checksumData)\<close>: the twenty other properties, in the order in which the
  parser created them.
\<close>

definition checksumData :: "hdfc_response \<Rightarrow> jsval list" where
  "checksumData td =
     [Str (merchantId td), Str (merchantName td), Str (terminalId td),
      Str (transactionId td), Str (bankRRN td), Str (merchantTxnId td),
      Num (amount td), Str (transactionStatus td), Str (statusCode td),
      Str (statusDescription td), Str (payerVPA td), Str (payerName td),
      Str (mobileNumber td), Str (transactionDateTime td), Num (settlementAmount td),
      Str (settlementDateTime td), Str (paymentMode td), Str (mcc td),
      Num (tipAmount td), Num (convenienceFee td)]"

definition generateChecksum :: "world \<Rightarrow> jsval list \<Rightarrow> string \<Rightarrow> string" where
  "generateChecksum W data key = hmac_sha256 W key (join ''|'' (map (to_text W) data))"

definition validateChecksum :: "world \<Rightarrow> jsval list \<Rightarrow> string \<Rightarrow> string \<Rightarrow> bool" where
  "validateChecksum W data receivedChecksum key =
     (generateChecksum W data key = receivedChecksum)"

subsection \<open>Validation\<close>

definition checkDuplicate :: "world \<Rightarrow> database \<Rightarrow> string \<Rightarrow> string \<Rightarrow> bool" where
  "checkDuplicate W db transactionId' merchantId' =
     (case getTransactionDetails W db transactionId' merchantId' of
        Inr existing \<Rightarrow> success existing
      | Inl e \<Rightarrow> False)"

definition validateTimestamp :: "world \<Rightarrow> env \<Rightarrow> string \<Rightarrow> error + bool" where
  "validateTimestamp W E timestamp =
     (let hoursDiff = hours_since W timestamp
      in if NODE_ENV E \<noteq> Some ''development'' \<and> js_gt hoursDiff (Fin 24)
         then Inl TransactionTooOld else Inr True)"

subsection \<open>Processing\<close>

record store =
  db :: database
  local_transactions :: "local_transaction list"

text \<open>\<^verbatim>\<open>s.startsWith(p)\<close>\<close>

definition startsWith :: "string \<Rightarrow> string \<Rightarrow> bool" where
  "startsWith s p = (take (length p) s = p)"

definition extractQRIdentifier :: "string \<Rightarrow> string" where
  "extractQRIdentifier merchantTxnId' =
     (if startsWith merchantTxnId' ''STQ'' then substring merchantTxnId' 3 (length merchantTxnId' - 13)
      else if startsWith merchantTxnId' ''DYN'' then substring merchantTxnId' 3 (length merchantTxnId' - 13)
      else merchantTxnId')"

text \<open>
  The data handed to the service; \<^verbatim>\<open>failure_reason\<close>, which the service does not read, is
  left out.
\<close>

definition webhookData :: "hdfc_response \<Rightarrow> txn_status \<Rightarrow> webhook_data" where
  "webhookData td st =
     \<lparr> wd_transaction_id = transactionId td,
       wd_merchant_id = merchantId td,
       wd_qr_identifier = extractQRIdentifier (merchantTxnId td),
       wd_amount = amount td,
       wd_customer_vpa = payerVPA td,
       wd_customer_name = payerName td,
       wd_reference_number = merchantTxnId td,
       wd_bank_reference_number = bankRRN td,
       wd_status = st,
       wd_payment_method = ''UPI'' \<rparr>"

definition process_with_status ::
  "world \<Rightarrow> env \<Rightarrow> store \<Rightarrow> hdfc_response \<Rightarrow> txn_status \<Rightarrow> error + store" where
  "process_with_status W E S td st =
     (if NODE_ENV E = Some ''development''
      then Inr (S \<lparr> local_transactions := saveTransaction W (local_transactions S) td \<rparr>)
      else (case processTransactionWebhook W (db S) (webhookData td st) of
              Inl e \<Rightarrow> Inl e
            | Inr db' \<Rightarrow> Inr (S \<lparr> db := db' \<rparr>)))"

definition processSuccessfulTransaction ::
  "world \<Rightarrow> env \<Rightarrow> store \<Rightarrow> hdfc_response \<Rightarrow> error + store" where
  "processSuccessfulTransaction W E S td = process_with_status W E S td Success"

definition processFailedTransaction ::
  "world \<Rightarrow> env \<Rightarrow> store \<Rightarrow> hdfc_response \<Rightarrow> error + store" where
  "processFailedTransaction W E S td = process_with_status W E S td Failed"

subsection \<open>The route \<^verbatim>\<open>POST /hdfc/webhook\<close>\<close>

record request_body =
  encryptedData :: "string option"

datatype response =
    MissingEncryptedData          \<comment> \<open>400, \<^verbatim>\<open>'Missing encrypted data'\<close>\<close>
  | AlreadyProcessed string       \<comment> \<open>200, \<^verbatim>\<open>'Transaction already processed'\<close>, \<^verbatim>\<open>isDuplicate: true\<close>\<close>
  | ProcessedSuccessfully string  \<comment> \<open>200, \<^verbatim>\<open>'Webhook processed successfully'\<close>\<close>
  | ServerError error             \<comment> \<open>500, with the message of the error\<close>

fun http_status :: "response \<Rightarrow> nat" where
  "http_status MissingEncryptedData = 400"
| "http_status (AlreadyProcessed t) = 200"
| "http_status (ProcessedSuccessfully t) = 200"
| "http_status (ServerError e) = 500"

text \<open>
  The handler awaits the duplicate check, so another delivery can run between the check
  and what follows it. The handler is therefore written in parts: the decoding of the
  request (which reads no storage), the duplicate check (which only reads it), and what
  comes after.
\<close>

text \<open>The decoding: \<open>Inl\<close> is the response that ends the request, \<open>Inr\<close> the decoded payload.\<close>

definition webhook_decode :: "world \<Rightarrow> env \<Rightarrow> request_body \<Rightarrow> response + hdfc_response" where
  "webhook_decode W E body =
     (if falsy (encryptedData body) then Inl MissingEncryptedData
      else if falsy (HDFC_MERCHANT_KEY E) then Inl (ServerError MerchantKeyNotConfigured)
      else
        (let merchantKey = text_of (HDFC_MERCHANT_KEY E)
         in case decryptAES128 W (text_of (encryptedData body)) merchantKey of
              Inl e \<Rightarrow> Inl (ServerError e)
            | Inr decryptedData \<Rightarrow>
                (case parseHDFCResponse decryptedData of
                   Inl e \<Rightarrow> Inl (ServerError e)
                 | Inr transactionData \<Rightarrow>
                     if NODE_ENV E \<noteq> Some ''development''
                        \<and> \<not> validateChecksum W (checksumData transactionData)
                              (checksum transactionData) merchantKey
                     then Inl (ServerError InvalidChecksum)
                     else Inr transactionData)))"

datatype checked = Respond response | Proceed hdfc_response

definition webhook_check :: "world \<Rightarrow> env \<Rightarrow> store \<Rightarrow> request_body \<Rightarrow> checked" where
  "webhook_check W E S body =
     (case webhook_decode W E body of
        Inl r \<Rightarrow> Respond r
      | Inr transactionData \<Rightarrow>
          if checkDuplicate W (db S) (transactionId transactionData)
               (merchantId transactionData)
          then Respond (AlreadyProcessed (transactionId transactionData))
          else Proceed transactionData)"

definition webhook_process ::
  "world \<Rightarrow> env \<Rightarrow> store \<Rightarrow> hdfc_response \<Rightarrow> response \<times> store" where
  "webhook_process W E S transactionData =
     (case validateAmount (amount transactionData) of
        Inl e \<Rightarrow> (ServerError e, S)
      | Inr ok \<Rightarrow>
          (case validateTimestamp W E (transactionDateTime transactionData) of
             Inl e \<Rightarrow> (ServerError e, S)
           | Inr ok' \<Rightarrow>
               (case (if transactionStatus transactionData = ''SUCCESS''
                      then processSuccessfulTransaction W E S transactionData
                      else processFailedTransaction W E S transactionData) of
                  Inl e \<Rightarrow> (ServerError e, S)
                | Inr S' \<Rightarrow> (ProcessedSuccessfully (transactionId transactionData), S'))))"

text \<open>One delivery handled without interruption.\<close>

definition webhook_handler ::
  "world \<Rightarrow> env \<Rightarrow> store \<Rightarrow> request_body \<Rightarrow> response \<times> store" where
  "webhook_handler W E S body =
     (case webhook_check W E S body of
        Respond r \<Rightarrow> (r, S)
      | Proceed transactionData \<Rightarrow> webhook_process W E S transactionData)"

text \<open>
  Two deliveries whose duplicate checks both complete before either is processed; the
  first is then processed, and the second after it.
\<close>

definition webhook_interleaved ::
  "world \<Rightarrow> env \<Rightarrow> store \<Rightarrow> request_body \<Rightarrow> request_body \<Rightarrow> response \<times> response \<times> store" where
  "webhook_interleaved W E S body1 body2 =
     (let c1 = webhook_check W E S body1;
          c2 = webhook_check W E S body2;
          (r1, S1) = (case c1 of Respond r \<Rightarrow> (r, S) | Proceed td \<Rightarrow> webhook_process W E S td);
          (r2, S2) = (case c2 of Respond r \<Rightarrow> (r, S1) | Proceed td \<Rightarrow> webhook_process W E S1 td)
      in (r1, r2, S2))"

section \<open>A sample world, for closed examples\<close>

text \<open>
  A world in which decryption gives the text back, the digest is the key followed by the
  text without its pipes, numbers are printed as JavaScript prints the natural numbers
  (other finite values are not used by the examples), a finite number is bound as its value
  and NaN and the infinities are rejected by the database, and no storage call fails.
\<close>

fun nat_digits :: "nat \<Rightarrow> string" where
  "nat_digits n =
     (if n < 10 then [char_of (48 + n)]
      else nat_digits (n div 10) @ [char_of (48 + n mod 10)])"

fun sample_number_to_string :: "jsnum \<Rightarrow> string" where
  "sample_number_to_string NaN = ''NaN''"
| "sample_number_to_string PosInf = ''Infinity''"
| "sample_number_to_string NegInf = ''-Infinity''"
| "sample_number_to_string (Fin q) = nat_digits (nat \<lfloor>q\<rfloor>)"

fun sample_to_decimal :: "jsnum \<Rightarrow> rat option" where
  "sample_to_decimal (Fin q) = Some q"
| "sample_to_decimal n = None"

definition sample_world :: world where
  "sample_world =
     \<lparr> aes_decrypt = (\<lambda>text key. Some text),
       hmac_sha256 = (\<lambda>key text. key @ ''-'' @ filter (\<lambda>c. c \<noteq> CHR ''|'') text),
       number_to_string = sample_number_to_string,
       hours_since = (\<lambda>timestamp. Fin 1),
       to_decimal = sample_to_decimal,
       today = ''2024-01-01'',
       current_timestamp = ''2024-01-01 00:00:00'',
       date_now = ''1704067200000'',
       iso_now = ''2024-01-01T00:00:00.000Z'',
       new_refund_id = ''20240101ABCDEFGHI'',
       lookup_fault = None,
       store_fault = None \<rparr>"

definition production :: env where
  "production = \<lparr> NODE_ENV = Some ''production'', HDFC_MERCHANT_KEY = Some ''k'' \<rparr>"

definition development :: env where
  "development = \<lparr> NODE_ENV = Some ''development'', HDFC_MERCHANT_KEY = Some ''k'' \<rparr>"

definition production_without_key :: env where
  "production_without_key = \<lparr> NODE_ENV = Some ''production'', HDFC_MERCHANT_KEY = None \<rparr>"

text \<open>A store with one QR code and nothing else.\<close>

definition sample_database :: database where
  "sample_database =
     \<lparr> qr_codes = [\<lparr> qc_id = 7, qc_qr_identifier = ''ABCDE'' \<rparr>],
       qr_transactions = [],
       qr_daily_stats = [],
       qr_webhook_events = [],
       qr_refund_audit = [] \<rparr>"

definition sample_store :: store where
  "sample_store = \<lparr> db = sample_database, local_transactions = [] \<rparr>"

text \<open>
  A successful payment of 100 on that QR code by merchant \<^verbatim>\<open>M1\<close>, with the checksum that the
  sample world computes under the key \<^verbatim>\<open>k\<close>; and the same payment with a checksum that
  does not match.
\<close>

definition signed_payload :: string where
  "signed_payload = ''M1|Shop|T1|TXN1|RRN1|STQABCDE1700000000000|100.00|SUCCESS|00|Success|a@b|A|9|2024|100.00|2024|UPI|5499|0|0|k-M1ShopT1TXN1RRN1STQABCDE1700000000000100SUCCESS00Successa@bA920241002024UPI549900''"

definition tampered_payload :: string where
  "tampered_payload = ''M1|Shop|T1|TXN1|RRN1|STQABCDE1700000000000|100.00|SUCCESS|00|Success|a@b|A|9|2024|100.00|2024|UPI|5499|0|0|BAD''"

text \<open>
  A failed payment reported under the same transaction id by another merchant, \<^verbatim>\<open>M2\<close>, with
  its checksum.
\<close>

definition signed_failed_payload :: string where
  "signed_failed_payload = ''M2|Other|T1|TXN1|RRN2|STQABCDE1700000000000|100.00|FAILED|U03|Debit has failed|a@b|A|9|2024|100.00|2024|UPI|5499|0|0|k-M2OtherT1TXN1RRN2STQABCDE1700000000000100FAILEDU03Debit has faileda@bA920241002024UPI549900''"


definition signed_request :: request_body where
  "signed_request = \<lparr> encryptedData = Some signed_payload \<rparr>"

definition tampered_request :: request_body where
  "tampered_request = \<lparr> encryptedData = Some tampered_payload \<rparr>"

text \<open>The three payloads, decoded.\<close>

definition signed_data :: hdfc_response where
  "signed_data =
     \<lparr> merchantId = ''M1'', merchantName = ''Shop'', terminalId = ''T1'',
       transactionId = ''TXN1'', bankRRN = ''RRN1'',
       merchantTxnId = ''STQABCDE1700000000000'', amount = Fin 100,
       transactionStatus = ''SUCCESS'', statusCode = ''00'',
       statusDescription = ''Success'', payerVPA = ''a@b'', payerName = ''A'',
       mobileNumber = ''9'', transactionDateTime = ''2024'', settlementAmount = Fin 100,
       settlementDateTime = ''2024'', paymentMode = ''UPI'', mcc = ''5499'',
       tipAmount = Fin 0, convenienceFee = Fin 0,
       checksum = ''k-M1ShopT1TXN1RRN1STQABCDE1700000000000100SUCCESS00Successa@bA920241002024UPI549900'' \<rparr>"

definition tampered_data :: hdfc_response where
  "tampered_data = signed_data \<lparr> checksum := ''BAD'' \<rparr>"


text \<open>The store after the delivery of the signed payload to the sample store.\<close>

definition paid_database :: database where
  "paid_database =
     \<lparr> qr_codes = [\<lparr> qc_id = 7, qc_qr_identifier = ''ABCDE'' \<rparr>],
       qr_transactions =
         [\<lparr> t_id = 1, t_transaction_id = ''TXN1'', t_qr_code_id = 7, t_merchant_id = ''M1'',
            t_amount = 100, t_customer_vpa = ''a@b'', t_customer_name = ''A'',
            t_reference_number = ''STQABCDE1700000000000'',
            t_bank_reference_number = ''RRN1'', t_status = Success,
            t_payment_method = ''UPI'', t_settlement_status = Some ''pending'',
            t_completed_at = None, t_refund_amount = None, t_refund_reason = None,
            t_refund_initiated_by = None, t_refund_initiated_at = None \<rparr>],
       qr_daily_stats =
         [\<lparr> ds_merchant_id = ''M1'', ds_qr_code_id = 7, ds_stat_date = ''2024-01-01'',
            total_transactions = 1, successful_transactions = 1,
            total_amount = 100, successful_amount = 100 \<rparr>],
       qr_webhook_events =
         [\<lparr> ev_event_type = ''transaction.success'', ev_transaction_id = ''TXN1'',
            ev_payload = webhookData signed_data Success, ev_status = ''processed'' \<rparr>],
       qr_refund_audit = [] \<rparr>"

definition paid_store :: store where
  "paid_store = \<lparr> db = paid_database, local_transactions = [] \<rparr>"

text \<open>
  A store that already holds a payment of 250 by merchant \<^verbatim>\<open>M1\<close> and counters of that day
  for two merchants.
\<close>

definition busy_database :: database where
  "busy_database =
     \<lparr> qr_codes = [\<lparr> qc_id = 7, qc_qr_identifier = ''ABCDE'' \<rparr>],
       qr_transactions =
         [\<lparr> t_id = 1, t_transaction_id = ''TXN0'', t_qr_code_id = 7, t_merchant_id = ''M1'',
            t_amount = 250, t_customer_vpa = ''c@d'', t_customer_name = ''C'',
            t_reference_number = ''STQABCDE1600000000000'',
            t_bank_reference_number = ''RRN0'', t_status = Success,
            t_payment_method = ''UPI'', t_settlement_status = Some ''pending'',
            t_completed_at = None, t_refund_amount = None, t_refund_reason = None,
            t_refund_initiated_by = None, t_refund_initiated_at = None \<rparr>],
       qr_daily_stats =
         [\<lparr> ds_merchant_id = ''M9'', ds_qr_code_id = 7, ds_stat_date = ''2024-01-01'',
            total_transactions = 5, successful_transactions = 5,
            total_amount = 500, successful_amount = 500 \<rparr>,
          \<lparr> ds_merchant_id = ''M1'', ds_qr_code_id = 7, ds_stat_date = ''2024-01-01'',
            total_transactions = 3, successful_transactions = 3,
            total_amount = 250, successful_amount = 250 \<rparr>],
       qr_webhook_events = [],
       qr_refund_audit = [] \<rparr>"

definition busy_store :: store where
  "busy_store = \<lparr> db = busy_database, local_transactions = [] \<rparr>"

text \<open>The sample world with a duplicate lookup that fails.\<close>

definition lookup_down :: world where
  "lookup_down = sample_world \<lparr> lookup_fault := Some (StorageError ''connection lost'') \<rparr>"


section \<open>Properties of the VPA codec\<close>

lemma re_test_append:
  "length ps = length s \<Longrightarrow> re_test (ps @ qs) (s @ t) = (re_test ps s \<and> re_test qs t)"
  by (induction ps s rule: re_test.induct) auto

lemma re_test_length: "re_test ps s \<Longrightarrow> length s = length ps"
  by (induction ps s rule: re_test.induct) auto

lemma re_test_replicate:
  "re_test (replicate n i) s = (length s = n \<and> (\<forall>c \<in> set s. item_matches i c))"
proof (induction n arbitrary: s)
  case 0
  then show ?case by (cases s) auto
next
  case (Suc n)
  then show ?case by (cases s) auto
qed

lemma in_ranges_iff:
  "in_ranges rs c =
     (\<exists>(lo, hi) \<in> set rs. (of_char lo :: nat) \<le> of_char c \<and> (of_char c :: nat) \<le> of_char hi)"
  by (induction rs c rule: in_ranges.induct) auto

lemma in_ranges_singletons: "in_ranges (map (\<lambda>c. (c, c)) cs) c = (c \<in> set cs)"
  by (induction cs) auto

lemma identifier_char_in_class:
  "c \<in> set IDENTIFIER_CHARS \<Longrightarrow>
     in_ranges [(CHR ''A'', CHR ''Z''), (CHR ''0'', CHR ''9'')] c"
  unfolding IDENTIFIER_CHARS_def by auto

lemma validateIdentifierFormat_iff:
  "validateIdentifierFormat c =
     (length c = IDENTIFIER_LENGTH \<and> set c \<subseteq> set IDENTIFIER_CHARS)"
  unfolding validateIdentifierFormat_def
  by (auto simp: re_test_replicate in_ranges_singletons IDENTIFIER_LENGTH_def)

lemma re_test_prefix_self: "re_test (re_of_text VPA_PREFIX) VPA_PREFIX"
  by (simp add: re_of_text_def VPA_PREFIX_def line_terminator_def)

lemma re_test_domain_self: "re_test (re_of_text VPA_DOMAIN) VPA_DOMAIN"
  by (simp add: re_of_text_def VPA_DOMAIN_def)

lemma validateVPAFormat_formatVPA:
  assumes "validateIdentifierFormat c"
  shows "validateVPAFormat (formatVPA c)"
proof -
  from assms have len: "length c = IDENTIFIER_LENGTH" and chars: "set c \<subseteq> set IDENTIFIER_CHARS"
    by (simp_all add: validateIdentifierFormat_iff)
  let ?cls = "Class [(CHR ''A'', CHR ''Z''), (CHR ''0'', CHR ''9'')]"
  have mid: "re_test (replicate IDENTIFIER_LENGTH ?cls) c"
    using len chars identifier_char_in_class by (auto simp: re_test_replicate)
  have "re_test (replicate IDENTIFIER_LENGTH ?cls @ re_of_text VPA_DOMAIN) (c @ VPA_DOMAIN)"
    using mid re_test_domain_self len by (simp add: re_test_append)
  then have "re_test (re_of_text VPA_PREFIX @ replicate IDENTIFIER_LENGTH ?cls @ re_of_text VPA_DOMAIN)
               (VPA_PREFIX @ c @ VPA_DOMAIN)"
    using re_test_prefix_self by (simp add: re_test_append re_of_text_def)
  then show ?thesis
    by (simp add: validateVPAFormat_def formatVPA_def)
qed

lemma substring_middle:
  "substring (p @ c @ d) (length p) (length p + length c) = c"
  by (simp add: substring_def Let_def min_def max_def)

text \<open>
  C4. For every valid 5-character code \<open>c\<close> over A-Z and 0-9 (one that
  \<open>validateIdentifierFormat\<close> accepts), extracting the identifier from the formatted address
  succeeds and gives back exactly \<open>c\<close>.
\<close>

theorem extractIdentifier_formatVPA:
  "validateIdentifierFormat c \<Longrightarrow> extractIdentifier (formatVPA c) = Inr c"
proof -
  assume v: "validateIdentifierFormat c"
  then have len: "length c = IDENTIFIER_LENGTH"
    by (simp add: validateIdentifierFormat_iff)
  have "substring (formatVPA c) (length VPA_PREFIX) (length VPA_PREFIX + IDENTIFIER_LENGTH) = c"
    unfolding formatVPA_def using substring_middle [of VPA_PREFIX c VPA_DOMAIN] len by simp
  with validateVPAFormat_formatVPA [OF v] show ?thesis
    by (simp add: extractIdentifier_def Let_def)
qed

theorem extractIdentifier_formatVPA_witness:
  "validateIdentifierFormat ''AB12Z'' \<and> extractIdentifier (formatVPA ''AB12Z'') = Inr ''AB12Z''"
proof -
  have v: "validateIdentifierFormat ''AB12Z''"
    by (simp add: validateIdentifierFormat_iff IDENTIFIER_LENGTH_def IDENTIFIER_CHARS_def)
  from v extractIdentifier_formatVPA [OF v] show ?thesis by simp
qed

text \<open>
  C5. The address \<^verbatim>\<open>sabpaisaXABCDE@okhdfcbank\<close> is not the formatted address of any code (the
  ninth character is not the dot of the prefix), yet \<open>extractIdentifier\<close> does not fail on it:
  the dot of the prefix is read as a metacharacter, the address passes \<open>validateVPAFormat\<close>
  and the substring \<^verbatim>\<open>ABCDE\<close> is returned.
\<close>

theorem extractIdentifier_accepts_malformed:
  "extractIdentifier ''sabpaisaXABCDE@okhdfcbank'' = Inr ''ABCDE''
   \<and> \<not> (\<exists>c. formatVPA c = ''sabpaisaXABCDE@okhdfcbank'')"
  by (simp add: extractIdentifier_def validateVPAFormat_def re_of_text_def VPA_PREFIX_def
      VPA_DOMAIN_def IDENTIFIER_LENGTH_def line_terminator_def substring_def formatVPA_def
      numeral_eq_Suc)

section \<open>Properties of the webhook decoder and validator\<close>

lemma length_split_from:
  "length (split_from sep cur s) = Suc (length (filter (\<lambda>c. c = sep) s))"
  by (induction s arbitrary: cur) auto

lemma length_split: "length (split sep s) = Suc (length (filter (\<lambda>c. c = sep) s))"
  by (simp add: split_def length_split_from)

text \<open>
  C6. The parser succeeds exactly when splitting the plaintext on the pipe gives 21 fields
  (that is, when the plaintext holds 20 pipes); with any other count it fails with the
  format error, which carries the count alone: no field has been read.
\<close>

theorem parseHDFCResponse_field_count:
  "(length (split (CHR ''|'') p) = 21 \<longrightarrow> (\<exists>r. parseHDFCResponse p = Inr r))
   \<and> (length (split (CHR ''|'') p) \<noteq> 21 \<longrightarrow>
        parseHDFCResponse p = Inl (InvalidResponseFormat (length (split (CHR ''|'') p))))
   \<and> length (split (CHR ''|'') p) = Suc (length (filter (\<lambda>c. c = CHR ''|'') p))"
  by (simp add: parseHDFCResponse_def Let_def length_split)

theorem parseHDFCResponse_field_count_witness:
  "length (split (CHR ''|'') sample_plaintext) = 21
   \<and> (\<exists>r. parseHDFCResponse sample_plaintext = Inr r)
   \<and> length (split (CHR ''|'') ''a|b|c'') \<noteq> 21
   \<and> parseHDFCResponse ''a|b|c'' = Inl (InvalidResponseFormat 3)"
proof -
  have a: "length (split (CHR ''|'') sample_plaintext) = 21"
    by (simp add: sample_plaintext_def length_split)
  have b: "length (split (CHR ''|'') ''a|b|c'') = 3"
    by (simp add: length_split)
  from a b parseHDFCResponse_field_count [of sample_plaintext]
    parseHDFCResponse_field_count [of "''a|b|c''"]
  show ?thesis by simp
qed

lemma validateAmount_Fin:
  "validateAmount (Fin q) =
     (if 1 \<le> q \<and> q \<le> 100000 then Inr True else Inl AmountOutsideLimits)"
  by (auto simp: validateAmount_def limits_min_def limits_max_def js_gt_def)

lemma validateAmount_infinite:
  "validateAmount PosInf = Inl AmountOutsideLimits"
  "validateAmount NegInf = Inl AmountOutsideLimits"
  by (simp_all add: validateAmount_def limits_min_def limits_max_def js_gt_def)

lemma validateAmount_boundaries:
  "validateAmount (Fin 1) = Inr True"
  "validateAmount (Fin 100000) = Inr True"
  "validateAmount (Fin 0) = Inl AmountOutsideLimits"
  "validateAmount (Fin 100001) = Inl AmountOutsideLimits"
  by (simp_all add: validateAmount_Fin)

text \<open>
  C7. The amount validator accepts NaN, which is not a finite number: both comparisons of
  the guard are false on it. (On every other number the validator is the inclusive bounds
  check, see \<open>validateAmount_Fin\<close> and \<open>validateAmount_infinite\<close>.)
\<close>

theorem validateAmount_accepts_NaN:
  "validateAmount NaN = Inr True \<and> \<not> is_finite NaN"
  by (simp add: validateAmount_def js_gt_def limits_min_def limits_max_def)

lemma round_to_double_not_NaN: "round_to_double q \<noteq> NaN"
  by (simp add: round_to_double_def Let_def)

lemma or_zero_not_NaN: "or_zero x \<noteq> NaN"
  by (cases x) (simp_all add: or_zero_def)

lemma unsigned_decimal_None_iff:
  "(unsigned_decimal u = None) =
     (case u of
        [] \<Rightarrow> True
      | c # cs \<Rightarrow>
          \<not> is_digit c
          \<and> \<not> (c = CHR ''.'' \<and> (case cs of [] \<Rightarrow> False | d # ds \<Rightarrow> is_digit d)))"
proof (cases u)
  case Nil
  then show ?thesis
    by (simp add: unsigned_decimal_def)
next
  case (Cons c cs)
  show ?thesis
  proof (cases "is_digit c")
    case True
    then show ?thesis
      by (simp add: Cons unsigned_decimal_def split: prod.splits)
  next
    case False
    then show ?thesis
      by (cases cs) (auto simp: Cons unsigned_decimal_def)
  qed
qed

text \<open>\<^verbatim>\<open>parseFloat\<close> gives NaN exactly on the texts without a numeric prefix.\<close>

lemma parseFloat_NaN_iff: "(parseFloat s = NaN) = no_numeric_prefix s"
proof -
  obtain neg u where su: "strip_sign (dropWhile str_whitespace s) = (neg, u)"
    by (cases "strip_sign (dropWhile str_whitespace s)")
  show ?thesis
  proof (cases "take 8 u = ''Infinity''")
    case True
    then show ?thesis
      by (simp add: parseFloat_def no_numeric_prefix_def su)
  next
    case False
    have "(parseFloat s = NaN) = (unsigned_decimal u = None)"
      using False
      by (cases "unsigned_decimal u") (simp_all add: parseFloat_def su round_to_double_not_NaN)
    then show ?thesis
      using False by (simp add: no_numeric_prefix_def su unsigned_decimal_None_iff)
  qed
qed

lemma parseFloat_Infinity: "parseFloat ''Infinity'' = PosInf"
  by (simp add: parseFloat_def str_whitespace_def)

lemma parseFloat_minus_Infinity: "parseFloat ''-Infinity'' = NegInf"
  by (simp add: parseFloat_def str_whitespace_def)

lemma no_numeric_prefix_samples:
  "no_numeric_prefix ''abc''" "no_numeric_prefix ''xyz''"
  "no_numeric_prefix ''.''" "no_numeric_prefix ''-''" "no_numeric_prefix ''INR 5''"
  by (simp_all add: no_numeric_prefix_def str_whitespace_def is_digit_def)

lemma split_sample_non_numeric:
  "split (CHR ''|'') sample_non_numeric =
     [''M1'', ''Shop'', ''T1'', ''TXN1'', ''RRN1'', ''STQABCDE1700000000000'', ''abc'',
      ''SUCCESS'', ''00'', ''Success'', ''a@b'', ''A'', ''9'', ''2024'', ''.'', ''2024'',
      ''UPI'', ''5499'', ''-'', ''INR 5'', ''CS'']"
  by (simp add: sample_non_numeric_def split_def)

lemma split_sample_infinite_tip:
  "split (CHR ''|'') sample_infinite_tip =
     [''M1'', ''Shop'', ''T1'', ''TXN1'', ''RRN1'', ''STQABCDE1700000000000'', ''abc'',
      ''SUCCESS'', ''00'', ''Success'', ''a@b'', ''A'', ''9'', ''2024'', ''xyz'', ''2024'',
      ''UPI'', ''5499'', ''Infinity'', ''-Infinity'', ''CS'']"
  by (simp add: sample_infinite_tip_def split_def)

text \<open>
  C9, as stated, fails: a plaintext of 21 fields whose tip field is the text
  \<^verbatim>\<open>Infinity\<close> is accepted and its \<open>tipAmount\<close> is the infinity, not a finite number
  (\<^verbatim>\<open>Infinity || 0\<close> is \<^verbatim>\<open>Infinity\<close>).
\<close>

theorem parseHDFCResponse_infinite_tip:
  "parseHDFCResponse sample_infinite_tip =
     Inr \<lparr> merchantId = ''M1'', merchantName = ''Shop'', terminalId = ''T1'',
           transactionId = ''TXN1'', bankRRN = ''RRN1'',
           merchantTxnId = ''STQABCDE1700000000000'', amount = NaN,
           transactionStatus = ''SUCCESS'', statusCode = ''00'',
           statusDescription = ''Success'', payerVPA = ''a@b'', payerName = ''A'',
           mobileNumber = ''9'', transactionDateTime = ''2024'', settlementAmount = NaN,
           settlementDateTime = ''2024'', paymentMode = ''UPI'', mcc = ''5499'',
           tipAmount = PosInf, convenienceFee = NegInf, checksum = ''CS'' \<rparr>
   \<and> \<not> is_finite PosInf \<and> \<not> is_finite NegInf"
  by (simp add: parseHDFCResponse_def split_sample_infinite_tip Let_def
      parseFloat_Infinity parseFloat_minus_Infinity or_zero_def
      parseFloat_NaN_iff no_numeric_prefix_samples)

text \<open>
  C9, amended. For every plaintext the parser accepts: \<open>tipAmount\<close> and \<open>convenienceFee\<close> are
  never NaN; each is 0 when \<^verbatim>\<open>parseFloat\<close> cannot read the field text as a number (gives
  NaN), and is what \<^verbatim>\<open>parseFloat\<close> gives otherwise, an infinity included; \<open>amount\<close> and
  \<open>settlementAmount\<close> are what \<^verbatim>\<open>parseFloat\<close> gives, so they are NaN when it cannot read the
  field text: the parser does not reject it. The texts that \<^verbatim>\<open>parseFloat\<close> cannot read are
  those without a numeric prefix.
\<close>

theorem parseHDFCResponse_numeric_fields:
  assumes "parseHDFCResponse p = Inr r"
  shows "tipAmount r \<noteq> NaN \<and> convenienceFee r \<noteq> NaN
    \<and> tipAmount r = (if parseFloat (split (CHR ''|'') p ! 18) = NaN then Fin 0
                      else parseFloat (split (CHR ''|'') p ! 18))
    \<and> convenienceFee r = (if parseFloat (split (CHR ''|'') p ! 19) = NaN then Fin 0
                           else parseFloat (split (CHR ''|'') p ! 19))
    \<and> amount r = parseFloat (split (CHR ''|'') p ! 6)
    \<and> settlementAmount r = parseFloat (split (CHR ''|'') p ! 14)
    \<and> (no_numeric_prefix (split (CHR ''|'') p ! 18) \<longrightarrow> tipAmount r = Fin 0)
    \<and> (no_numeric_prefix (split (CHR ''|'') p ! 19) \<longrightarrow> convenienceFee r = Fin 0)
    \<and> (no_numeric_prefix (split (CHR ''|'') p ! 6) \<longrightarrow> amount r = NaN)
    \<and> (no_numeric_prefix (split (CHR ''|'') p ! 14) \<longrightarrow> settlementAmount r = NaN)
    \<and> (\<forall>s. (parseFloat s = NaN) = no_numeric_prefix s)"
proof -
  from assms have len: "length (split (CHR ''|'') p) = 21"
    by (simp add: parseHDFCResponse_def Let_def split: if_splits)
  from assms len have
    t: "tipAmount r = or_zero (parseFloat (split (CHR ''|'') p ! 18))" and
    f: "convenienceFee r = or_zero (parseFloat (split (CHR ''|'') p ! 19))" and
    a: "amount r = parseFloat (split (CHR ''|'') p ! 6)" and
    s: "settlementAmount r = parseFloat (split (CHR ''|'') p ! 14)"
    by (auto simp: parseHDFCResponse_def Let_def)
  have z: "or_zero x = (if x = NaN then Fin 0 else x)" for x
    by (cases x) (simp_all add: or_zero_def)
  have "tipAmount r \<noteq> NaN" "convenienceFee r \<noteq> NaN"
    using t f by (simp_all add: or_zero_not_NaN)
  moreover have "tipAmount r = (if parseFloat (split (CHR ''|'') p ! 18) = NaN then Fin 0
                                else parseFloat (split (CHR ''|'') p ! 18))"
    using t by (simp only: z)
  moreover have "convenienceFee r = (if parseFloat (split (CHR ''|'') p ! 19) = NaN then Fin 0
                                     else parseFloat (split (CHR ''|'') p ! 19))"
    using f by (simp only: z)
  moreover have "no_numeric_prefix (split (CHR ''|'') p ! 18) \<longrightarrow> tipAmount r = Fin 0"
    using t by (simp add: z parseFloat_NaN_iff)
  moreover have "no_numeric_prefix (split (CHR ''|'') p ! 19) \<longrightarrow> convenienceFee r = Fin 0"
    using f by (simp add: z parseFloat_NaN_iff)
  moreover have "no_numeric_prefix (split (CHR ''|'') p ! 6) \<longrightarrow> amount r = NaN"
    using a by (simp add: parseFloat_NaN_iff)
  moreover have "no_numeric_prefix (split (CHR ''|'') p ! 14) \<longrightarrow> settlementAmount r = NaN"
    using s by (simp add: parseFloat_NaN_iff)
  moreover have "\<forall>s. (parseFloat s = NaN) = no_numeric_prefix s"
    by (simp add: parseFloat_NaN_iff)
  ultimately show ?thesis
    using a s by blast
qed

theorem parseHDFCResponse_numeric_fields_witness:
  "(\<exists>r. parseHDFCResponse sample_non_numeric = Inr r
      \<and> tipAmount r = Fin 0 \<and> convenienceFee r = Fin 0
      \<and> amount r = NaN \<and> settlementAmount r = NaN)
   \<and> split (CHR ''|'') sample_non_numeric ! 18 = ''-''
   \<and> split (CHR ''|'') sample_non_numeric ! 19 = ''INR 5''
   \<and> split (CHR ''|'') sample_non_numeric ! 6 = ''abc''
   \<and> split (CHR ''|'') sample_non_numeric ! 14 = ''.''
   \<and> no_numeric_prefix (split (CHR ''|'') sample_non_numeric ! 18)
   \<and> no_numeric_prefix (split (CHR ''|'') sample_non_numeric ! 19)
   \<and> no_numeric_prefix (split (CHR ''|'') sample_non_numeric ! 6)
   \<and> no_numeric_prefix (split (CHR ''|'') sample_non_numeric ! 14)"
proof -
  have f: "split (CHR ''|'') sample_non_numeric ! 18 = ''-''"
    "split (CHR ''|'') sample_non_numeric ! 19 = ''INR 5''"
    "split (CHR ''|'') sample_non_numeric ! 6 = ''abc''"
    "split (CHR ''|'') sample_non_numeric ! 14 = ''.''"
    by (simp_all add: split_sample_non_numeric)
  have n: "no_numeric_prefix (split (CHR ''|'') sample_non_numeric ! 18)"
    "no_numeric_prefix (split (CHR ''|'') sample_non_numeric ! 19)"
    "no_numeric_prefix (split (CHR ''|'') sample_non_numeric ! 6)"
    "no_numeric_prefix (split (CHR ''|'') sample_non_numeric ! 14)"
    by (simp_all only: f no_numeric_prefix_samples)
  have "length (split (CHR ''|'') sample_non_numeric) = 21"
    by (simp add: split_sample_non_numeric)
  then obtain r where r: "parseHDFCResponse sample_non_numeric = Inr r"
    by (auto simp: parseHDFCResponse_def Let_def)
  from parseHDFCResponse_numeric_fields [OF r] n have
    "tipAmount r = Fin 0" "convenienceFee r = Fin 0" "amount r = NaN" "settlementAmount r = NaN"
    by blast+
  with r f n show ?thesis
    by (intro conjI exI [of _ r])
qed

section \<open>The sample payloads, evaluated\<close>

declare nat_digits.simps [simp del]

lemma nat_digits_100: "nat_digits 100 = ''100''"
  by code_simp

lemma nat_digits_0: "nat_digits 0 = ''0''"
  by code_simp

lemmas nat_digits_samples = nat_digits_100 nat_digits_0

lemma payloads_not_empty:
  "signed_payload \<noteq> []" "tampered_payload \<noteq> []" "signed_failed_payload \<noteq> []"
  by (simp_all add: signed_payload_def tampered_payload_def signed_failed_payload_def)

lemma parseFloat_100: "parseFloat ''100.00'' = Fin 100"
  by code_simp

lemma parseFloat_0: "parseFloat ''0'' = Fin 0"
  by code_simp

lemma parse_signed_payload: "parseHDFCResponse signed_payload = Inr signed_data"
  by (simp add: parseHDFCResponse_def signed_payload_def split_def Let_def
      parseFloat_100 parseFloat_0 or_zero_def signed_data_def)

lemma parse_tampered_payload: "parseHDFCResponse tampered_payload = Inr tampered_data"
  by (simp add: parseHDFCResponse_def tampered_payload_def split_def Let_def
      parseFloat_100 parseFloat_0 or_zero_def signed_data_def tampered_data_def)


lemma checksum_signed_data:
  "generateChecksum sample_world (checksumData signed_data) ''k'' = checksum signed_data"
  by (simp add: generateChecksum_def checksumData_def signed_data_def sample_world_def
      nat_digits_samples)

lemma checksum_tampered_data:
  "generateChecksum sample_world (checksumData tampered_data) ''k'' \<noteq> checksum tampered_data"
  by (simp add: generateChecksum_def checksumData_def signed_data_def tampered_data_def
      sample_world_def nat_digits_samples)


lemma sample_world_decrypt: "decryptAES128 sample_world text key = Inr text"
  by (simp add: decryptAES128_def sample_world_def)

lemma decode_signed_request:
  "webhook_decode sample_world production signed_request = Inr signed_data"
  by (simp add: webhook_decode_def production_def signed_request_def sample_world_decrypt
      parse_signed_payload validateChecksum_def checksum_signed_data payloads_not_empty)


lemma decode_tampered_development:
  "webhook_decode sample_world development tampered_request = Inr tampered_data"
  by (simp add: webhook_decode_def development_def tampered_request_def sample_world_decrypt
      parse_tampered_payload payloads_not_empty)

section \<open>Properties of the webhook handler\<close>

lemma to_text_cong:
  "number_to_string W' = number_to_string W \<Longrightarrow> to_text W' v = to_text W v"
  by (cases v) simp_all

lemma webhook_decode_cong:
  assumes "aes_decrypt W' = aes_decrypt W" and "hmac_sha256 W' = hmac_sha256 W"
    and "number_to_string W' = number_to_string W"
  shows "webhook_decode W' E body = webhook_decode W E body"
proof -
  have tt: "to_text W' = to_text W"
    using to_text_cong [OF assms(3)] by (simp add: fun_eq_iff)
  have vc: "validateChecksum W' = validateChecksum W"
    by (intro ext) (simp add: validateChecksum_def generateChecksum_def tt assms(2))
  have dc: "decryptAES128 W' = decryptAES128 W"
    by (intro ext) (simp add: decryptAES128_def assms(1))
  show ?thesis
    unfolding webhook_decode_def vc dc by (rule refl)
qed

lemma webhook_handler_decode_Inl:
  "webhook_decode W E body = Inl r \<Longrightarrow> webhook_handler W E S body = (r, S)"
  by (simp add: webhook_handler_def webhook_check_def)

lemma webhook_decode_without_key:
  "falsy (HDFC_MERCHANT_KEY E) \<Longrightarrow>
     webhook_decode W E body =
       Inl (if falsy (encryptedData body) then MissingEncryptedData
            else ServerError MerchantKeyNotConfigured)"
  by (simp add: webhook_decode_def)

text \<open>
  C8, as stated, fails: without a merchant key the route still answers. A request that
  carries a payload is answered with status 500 and the message of the missing key, when
  it is handled, and a request without payload is answered with status 400.
\<close>

theorem missing_key_answered_per_request:
  "HDFC_MERCHANT_KEY production_without_key = None
   \<and> webhook_handler sample_world production_without_key sample_store signed_request
       = (ServerError MerchantKeyNotConfigured, sample_store)
   \<and> http_status (ServerError MerchantKeyNotConfigured) = 500
   \<and> webhook_handler sample_world production_without_key sample_store
         \<lparr> encryptedData = None \<rparr>
       = (MissingEncryptedData, sample_store)"
  by (simp add: webhook_handler_def webhook_check_def webhook_decode_def
      production_without_key_def signed_request_def payloads_not_empty)

text \<open>
  C8, amended. When the merchant key is not configured (undefined or empty), every request
  to the route is answered on its own, before anything is decrypted and with the store
  unchanged: with status 400 when it carries no payload, with status 500 and the message
  \<^verbatim>\<open>Merchant key not configured\<close> otherwise.
\<close>

theorem missing_key_response:
  assumes "falsy (HDFC_MERCHANT_KEY E)"
  shows "webhook_handler W E S body =
           (if falsy (encryptedData body) then MissingEncryptedData
            else ServerError MerchantKeyNotConfigured, S)"
  using assms by (simp add: webhook_handler_decode_Inl webhook_decode_without_key)

theorem missing_key_response_witness:
  "falsy (HDFC_MERCHANT_KEY production_without_key)
   \<and> webhook_handler sample_world production_without_key sample_store tampered_request
       = (ServerError MerchantKeyNotConfigured, sample_store)"
proof -
  have k: "falsy (HDFC_MERCHANT_KEY production_without_key)"
    by (simp add: production_without_key_def)
  from k missing_key_response [OF k, of sample_world sample_store tampered_request]
  show ?thesis
    by (simp add: tampered_request_def payloads_not_empty)
qed

text \<open>
  C3, as stated, fails: in development the checksum is not verified. The tampered payload,
  whose checksum is not the digest of its fields, is answered as processed and is written
  to the local store.
\<close>

theorem development_skips_checksum:
  "generateChecksum sample_world (checksumData tampered_data) ''k'' \<noteq> checksum tampered_data
   \<and> webhook_decode sample_world development tampered_request = Inr tampered_data
   \<and> fst (webhook_handler sample_world development sample_store tampered_request)
       = ProcessedSuccessfully ''TXN1''
   \<and> map lt_checksum (local_transactions
         (snd (webhook_handler sample_world development sample_store tampered_request)))
       = [''BAD'']"
proof -
  have "checkDuplicate sample_world (db sample_store) ''TXN1'' ''M1'' = False"
    by (simp add: checkDuplicate_def getTransactionDetails_def sample_world_def
        sample_store_def sample_database_def)
  then have c: "webhook_check sample_world development sample_store tampered_request
                  = Proceed tampered_data"
    by (simp add: webhook_check_def decode_tampered_development tampered_data_def
        signed_data_def)
  have a: "validateAmount (amount tampered_data) = Inr True"
    by (simp add: tampered_data_def signed_data_def validateAmount_Fin)
  have t: "validateTimestamp sample_world development (transactionDateTime tampered_data)
             = Inr True"
    by (simp add: validateTimestamp_def development_def)
  have n: "NODE_ENV development = Some ''development''"
    by (simp add: development_def)
  have s: "transactionStatus tampered_data = ''SUCCESS''"
    "transactionId tampered_data = ''TXN1''"
    by (simp_all add: tampered_data_def signed_data_def)
  have "webhook_handler sample_world development sample_store tampered_request
          = (ProcessedSuccessfully ''TXN1'',
             sample_store \<lparr> local_transactions :=
               saveTransaction sample_world (local_transactions sample_store) tampered_data \<rparr>)"
    by (simp add: webhook_handler_def c webhook_process_def a t s n
        processSuccessfulTransaction_def process_with_status_def)
  then show ?thesis
    using checksum_tampered_data decode_tampered_development
    by (simp add: saveTransaction_def tampered_data_def sample_store_def)
qed

text \<open>
  C3, amended. Outside development, for every request that decrypts and parses: the digest
  is the HMAC under the merchant key of the twenty values other than the checksum, in the
  order of the fields, joined by pipes (the four numeric values as the numbers print);
  when it is not equal to the received checksum, the request is answered with status 500 and
  the message of the invalid checksum, and the store is unchanged. In development the check
  is skipped.
\<close>

theorem checksum_mismatch_rejected:
  assumes "NODE_ENV E \<noteq> Some ''development''"
    and "\<not> falsy (encryptedData body)"
    and "\<not> falsy (HDFC_MERCHANT_KEY E)"
    and "decryptAES128 W (text_of (encryptedData body)) (text_of (HDFC_MERCHANT_KEY E))
           = Inr plain"
    and "parseHDFCResponse plain = Inr td"
    and "hmac_sha256 W (text_of (HDFC_MERCHANT_KEY E))
           (join ''|'' (map (to_text W) (checksumData td))) \<noteq> checksum td"
  shows "webhook_handler W E S body = (ServerError InvalidChecksum, S)
         \<and> length (checksumData td) = 20"
proof -
  from assms have "webhook_decode W E body = Inl (ServerError InvalidChecksum)"
    by (simp add: webhook_decode_def validateChecksum_def generateChecksum_def)
  then show ?thesis
    by (simp add: webhook_handler_decode_Inl checksumData_def)
qed

theorem checksum_mismatch_rejected_witness:
  "NODE_ENV production \<noteq> Some ''development''
   \<and> \<not> falsy (encryptedData tampered_request)
   \<and> \<not> falsy (HDFC_MERCHANT_KEY production)
   \<and> decryptAES128 sample_world (text_of (encryptedData tampered_request))
         (text_of (HDFC_MERCHANT_KEY production)) = Inr tampered_payload
   \<and> parseHDFCResponse tampered_payload = Inr tampered_data
   \<and> hmac_sha256 sample_world (text_of (HDFC_MERCHANT_KEY production))
         (join ''|'' (map (to_text sample_world) (checksumData tampered_data)))
       \<noteq> checksum tampered_data
   \<and> webhook_handler sample_world production sample_store tampered_request
       = (ServerError InvalidChecksum, sample_store)"
proof -
  have 1: "NODE_ENV production \<noteq> Some ''development''"
    by (simp add: production_def)
  have 2: "\<not> falsy (encryptedData tampered_request)"
    by (simp add: tampered_request_def payloads_not_empty)
  have 3: "\<not> falsy (HDFC_MERCHANT_KEY production)"
    by (simp add: production_def)
  have 4: "decryptAES128 sample_world (text_of (encryptedData tampered_request))
             (text_of (HDFC_MERCHANT_KEY production)) = Inr tampered_payload"
    by (simp add: sample_world_decrypt tampered_request_def)
  have 6: "hmac_sha256 sample_world (text_of (HDFC_MERCHANT_KEY production))
             (join ''|'' (map (to_text sample_world) (checksumData tampered_data)))
           \<noteq> checksum tampered_data"
    using checksum_tampered_data by (simp add: generateChecksum_def production_def)
  from checksum_mismatch_rejected [OF 1 2 3 4 parse_tampered_payload 6, of sample_store]
    1 2 3 4 6 parse_tampered_payload
  show ?thesis by simp
qed

lemma checkDuplicate_iff:
  "checkDuplicate W d tid mid = (\<exists>t. getTransactionDetails W d tid mid = Inr (Found t))"
  by (cases "getTransactionDetails W d tid mid"; simp add: checkDuplicate_def)
     (metis details.exhaust success.simps)

section \<open>Properties of the reconciliation\<close>

lemma filter_empty_iff: "(filter P xs = []) = (\<forall>x \<in> set xs. \<not> P x)"
  by (induction xs) auto

lemma upsert_stats_successful:
  "sum_list (map successful_transactions (upsert_stats m q d a rs))
     = sum_list (map successful_transactions rs) + 1"
  by (induction rs) auto

lemma upsert_stats_total:
  "sum_list (map total_transactions (upsert_stats m q d a rs))
     = sum_list (map total_transactions rs) + 1"
  by (induction rs) auto

lemma upsert_stats_amount:
  "sum_list (map total_amount (upsert_stats m q d a rs))
     = sum_list (map total_amount rs) + a"
  by (induction rs) auto

lemma upsert_stats_successful_amount:
  "sum_list (map successful_amount (upsert_stats m q d a rs))
     = sum_list (map successful_amount rs) + a"
  by (induction rs) auto

lemma daily_counters_upsert:
  "daily_counters (upsert_stats m q d a rs) m q d
     = (case daily_counters rs m q d of (n, s, x, y) \<Rightarrow> (n + 1, s + 1, x + a, y + a))"
  by (induction rs) (auto simp: daily_counters_def)

lemma other_rows_upsert:
  "filter (\<lambda>r. \<not> (ds_merchant_id r = m \<and> ds_qr_code_id r = q \<and> ds_stat_date r = d))
     (upsert_stats m q d a rs)
   = filter (\<lambda>r. \<not> (ds_merchant_id r = m \<and> ds_qr_code_id r = q \<and> ds_stat_date r = d)) rs"
  by (induction rs) auto

text \<open>What the processing of a transaction id that is not stored writes.\<close>

lemma processTransactionWebhook_fresh:
  assumes "store_fault W = None"
    and "filter (\<lambda>q. qc_qr_identifier q = wd_qr_identifier wd) (qr_codes d) = q # qs"
    and "to_decimal W (wd_amount wd) = Some a"
    and "\<forall>t \<in> set (qr_transactions d). t_transaction_id t \<noteq> wd_transaction_id wd"
  shows "processTransactionWebhook W d wd =
           Inr (log_webhook_event
                 (if wd_status wd = Success
                  then (d \<lparr> qr_transactions := qr_transactions d @ [new_row d wd q a] \<rparr>)
                         \<lparr> qr_daily_stats := upsert_stats (wd_merchant_id wd) (qc_id q)
                              (today W) a (qr_daily_stats d) \<rparr>
                  else d \<lparr> qr_transactions := qr_transactions d @ [new_row d wd q a] \<rparr>) wd)"
proof -
  from assms(4) have f: "filter (\<lambda>t. t_transaction_id t = wd_transaction_id wd)
                           (qr_transactions d) = []"
    by (simp add: filter_empty_iff)
  show ?thesis
    by (simp add: processTransactionWebhook_def upsert_transaction_def updateDailyStats_def
        assms(1) assms(2) assms(3) f)
qed

lemma processTransactionWebhook_Inr:
  assumes "processTransactionWebhook W d wd = Inr d'"
  shows "store_fault W = None
         \<and> (\<exists>q qs. filter (\<lambda>q. qc_qr_identifier q = wd_qr_identifier wd) (qr_codes d) = q # qs)"
  using assms by (auto simp: processTransactionWebhook_def split: option.splits list.splits)

lemma processTransactionWebhook_insert:
  assumes "processTransactionWebhook W d wd = Inr d'"
    and "\<forall>t \<in> set (qr_transactions d). t_transaction_id t \<noteq> wd_transaction_id wd"
  shows "\<exists>q qs a.
           filter (\<lambda>q. qc_qr_identifier q = wd_qr_identifier wd) (qr_codes d) = q # qs
           \<and> to_decimal W (wd_amount wd) = Some a
           \<and> d' = log_webhook_event
                 (if wd_status wd = Success
                  then (d \<lparr> qr_transactions := qr_transactions d @ [new_row d wd q a] \<rparr>)
                         \<lparr> qr_daily_stats := upsert_stats (wd_merchant_id wd) (qc_id q)
                              (today W) a (qr_daily_stats d) \<rparr>
                  else d \<lparr> qr_transactions := qr_transactions d @ [new_row d wd q a] \<rparr>) wd"
proof -
  from assms(2) have f: "filter (\<lambda>t. t_transaction_id t = wd_transaction_id wd)
                           (qr_transactions d) = []"
    by (simp add: filter_empty_iff)
  from processTransactionWebhook_Inr [OF assms(1)] obtain q qs where
    sf: "store_fault W = None"
    and q: "filter (\<lambda>q. qc_qr_identifier q = wd_qr_identifier wd) (qr_codes d) = q # qs"
    by blast
  from assms(1) sf q f obtain a where a: "to_decimal W (wd_amount wd) = Some a"
    by (auto simp: processTransactionWebhook_def upsert_transaction_def
        split: option.splits)
  from processTransactionWebhook_fresh [OF sf q a assms(2)] assms(1) q a show ?thesis
    by auto
qed

text \<open>The status that the handler hands to the service for a decoded payload.\<close>

lemma webhook_handler_processed:
  assumes "webhook_decode W E body = Inr td"
    and "webhook_handler W E S body = (ProcessedSuccessfully tid, S1)"
  shows "tid = transactionId td
         \<and> process_with_status W E S td
               (if transactionStatus td = ''SUCCESS'' then Success else Failed) = Inr S1"
proof -
  from assms have p: "webhook_process W E S td = (ProcessedSuccessfully tid, S1)"
    by (simp add: webhook_handler_def webhook_check_def split: if_splits)
  then show ?thesis
    by (auto simp: webhook_process_def processSuccessfulTransaction_def
        processFailedTransaction_def split: sum.splits if_splits)
qed

lemma process_with_status_production:
  assumes "NODE_ENV E \<noteq> Some ''development''"
    and "process_with_status W E S td st = Inr S1"
  shows "\<exists>d1. processTransactionWebhook W (db S) (webhookData td st) = Inr d1
               \<and> S1 = S \<lparr> db := d1 \<rparr>"
  using assms by (auto simp: process_with_status_def split: sum.splits)

lemma new_row_webhookData:
  "new_row (db S) (webhookData td
       (if transactionStatus td = ''SUCCESS'' then Success else Failed)) q a
     = \<lparr> t_id = next_id (qr_transactions (db S)),
                   t_transaction_id = transactionId td,
                   t_qr_code_id = qc_id q,
                   t_merchant_id = merchantId td,
                   t_amount = a,
                   t_customer_vpa = payerVPA td,
                   t_customer_name = payerName td,
                   t_reference_number = merchantTxnId td,
                   t_bank_reference_number = bankRRN td,
                   t_status = (if transactionStatus td = ''SUCCESS'' then Success else Failed),
                   t_payment_method = ''UPI'',
                   t_settlement_status =
                     (if transactionStatus td = ''SUCCESS'' then Some ''pending'' else None),
                   t_completed_at = None,
                   t_refund_amount = None,
                   t_refund_reason = None,
                   t_refund_initiated_by = None,
                   t_refund_initiated_at = None \<rparr>"
  by (simp add: new_row_def webhookData_def)

lemma webhookData_fields:
  "wd_transaction_id (webhookData td st) = transactionId td"
  "wd_merchant_id (webhookData td st) = merchantId td"
  "wd_amount (webhookData td st) = amount td"
  "wd_status (webhookData td st) = st"
  "wd_qr_identifier (webhookData td st) = extractQRIdentifier (merchantTxnId td)"
  by (simp_all add: webhookData_def)

text \<open>Outside development, a payload that passes validation is handed to the service.\<close>

lemma webhook_process_production:
  assumes "NODE_ENV E \<noteq> Some ''development''"
    and "validateAmount (amount td) = Inr True"
    and "\<not> js_gt (hours_since W (transactionDateTime td)) (Fin 24)"
  shows "webhook_process W E S td =
           (case processTransactionWebhook W (db S)
                   (webhookData td
                      (if transactionStatus td = ''SUCCESS'' then Success else Failed)) of
              Inl e \<Rightarrow> (ServerError e, S)
            | Inr d' \<Rightarrow> (ProcessedSuccessfully (transactionId td), S \<lparr> db := d' \<rparr>))"
  using assms
  by (simp add: webhook_process_def validateTimestamp_def processSuccessfulTransaction_def
      processFailedTransaction_def process_with_status_def split: sum.splits)

text \<open>The deliveries of the signed payload, step by step.\<close>

lemma signed_webhookData:
  "wd_transaction_id (webhookData signed_data Success) = ''TXN1''"
  "wd_qr_identifier (webhookData signed_data Success) = ''ABCDE''"
  "wd_status (webhookData signed_data Success) = Success"
  "wd_amount (webhookData signed_data Success) = Fin 100"
  "wd_merchant_id (webhookData signed_data Success) = ''M1''"
  by (simp_all add: webhookData_def signed_data_def extractQRIdentifier_def startsWith_def
      substring_def)

lemma signed_data_valid:
  "validateAmount (amount signed_data) = Inr True"
  "transactionStatus signed_data = ''SUCCESS''"
  "transactionId signed_data = ''TXN1''"
  "merchantId signed_data = ''M1''"
  "validateTimestamp sample_world production (transactionDateTime signed_data) = Inr True"
  "NODE_ENV production \<noteq> Some ''development''"
  by (simp_all add: signed_data_def validateAmount_Fin validateTimestamp_def sample_world_def
      js_gt_def production_def)

lemma process_signed_first:
  "processTransactionWebhook sample_world sample_database (webhookData signed_data Success)
     = Inr paid_database"
  by (simp add: processTransactionWebhook_def upsert_transaction_def updateDailyStats_def
      log_webhook_event_def signed_webhookData sample_database_def paid_database_def
      new_row_def next_id_def sample_world_def)
     (simp add: webhookData_def signed_data_def)

lemma check_signed_first:
  "webhook_check sample_world production sample_store signed_request = Proceed signed_data"
proof -
  have "\<not> checkDuplicate sample_world (db sample_store) ''TXN1'' ''M1''"
    by (simp add: checkDuplicate_def getTransactionDetails_def sample_store_def
        sample_database_def sample_world_def)
  then show ?thesis
    by (simp add: webhook_check_def decode_signed_request signed_data_valid)
qed

lemma webhook_process_signed_first:
  "webhook_process sample_world production sample_store signed_data
     = (ProcessedSuccessfully ''TXN1'', paid_store)"
  using signed_data_valid(6)
  by (simp add: webhook_process_def signed_data_valid processSuccessfulTransaction_def
      process_with_status_def sample_store_def process_signed_first paid_store_def)

lemma webhook_handler_signed_first:
  "webhook_handler sample_world production sample_store signed_request
     = (ProcessedSuccessfully ''TXN1'', paid_store)"
  by (simp add: webhook_handler_def check_signed_first webhook_process_signed_first)

lemma process_signed_again:
  "\<exists>d2. processTransactionWebhook sample_world paid_database (webhookData signed_data Success)
            = Inr d2
        \<and> map successful_transactions (qr_daily_stats d2) = [2]
        \<and> map total_amount (qr_daily_stats d2) = [200]"
  by (simp add: processTransactionWebhook_def upsert_transaction_def updateDailyStats_def
      log_webhook_event_def signed_webhookData paid_database_def sample_world_def)

text \<open>
  C1, as stated, fails: when two deliveries of the signed payload both pass the duplicate
  check before either is processed, both are processed, and the daily counters of the
  merchant count the payment twice (2 transactions, amount 200), where one delivery
  counts it once (1 transaction, amount 100).
\<close>

theorem concurrent_redelivery_counts_twice:
  "webhook_handler sample_world production sample_store signed_request
     = (ProcessedSuccessfully ''TXN1'', paid_store)
   \<and> map successful_transactions (qr_daily_stats (db paid_store)) = [1]
   \<and> map total_amount (qr_daily_stats (db paid_store)) = [100]
   \<and> fst (webhook_interleaved sample_world production sample_store
            signed_request signed_request) = ProcessedSuccessfully ''TXN1''
   \<and> fst (snd (webhook_interleaved sample_world production sample_store
            signed_request signed_request)) = ProcessedSuccessfully ''TXN1''
   \<and> map successful_transactions (qr_daily_stats (db (snd (snd
         (webhook_interleaved sample_world production sample_store
            signed_request signed_request))))) = [2]
   \<and> map total_amount (qr_daily_stats (db (snd (snd
         (webhook_interleaved sample_world production sample_store
            signed_request signed_request))))) = [200]"
proof -
  from process_signed_again obtain d2 where
    p2: "processTransactionWebhook sample_world paid_database
           (webhookData signed_data Success) = Inr d2"
    and s2: "map successful_transactions (qr_daily_stats d2) = [2]"
      "map total_amount (qr_daily_stats d2) = [200]"
    by auto
  have w2: "webhook_process sample_world production paid_store signed_data
              = (ProcessedSuccessfully ''TXN1'', paid_store \<lparr> db := d2 \<rparr>)"
    using signed_data_valid(6)
    by (simp add: webhook_process_def signed_data_valid processSuccessfulTransaction_def
        process_with_status_def paid_store_def p2)
  have i: "webhook_interleaved sample_world production sample_store signed_request
             signed_request
           = (ProcessedSuccessfully ''TXN1'', ProcessedSuccessfully ''TXN1'',
              paid_store \<lparr> db := d2 \<rparr>)"
    by (simp add: webhook_interleaved_def check_signed_first webhook_process_signed_first w2)
  show ?thesis
    unfolding webhook_handler_signed_first i using s2
    by (simp add: paid_store_def paid_database_def)
qed

text \<open>
  C1, amended. Outside development, for a payload whose transaction id is not stored yet:
  when its first delivery is answered as processed, exactly one transaction record, that of
  the payload, has been added, and the daily counters of the merchant (the row of the
  merchant, the QR code and the day) have been raised once: all four by one transaction
  or by the amount for a successful payment, with the rows of other keys as they were, and
  no counter at all otherwise; and a later delivery of the same request whose duplicate
  lookup does not fail is answered as already processed and leaves the store as it is.
  (Nothing is said of deliveries that overlap, nor of a later delivery whose duplicate
  lookup fails.)
\<close>

theorem sequential_redelivery_idempotent:
  assumes "NODE_ENV E \<noteq> Some ''development''"
    and "webhook_decode W1 E body = Inr td"
    and "\<forall>t \<in> set (qr_transactions (db S)). t_transaction_id t \<noteq> transactionId td"
    and "webhook_handler W1 E S body = (ProcessedSuccessfully tid, S1)"
    and "aes_decrypt W2 = aes_decrypt W1"
    and "hmac_sha256 W2 = hmac_sha256 W1"
    and "number_to_string W2 = number_to_string W1"
    and "lookup_fault W2 = None"
  shows "tid = transactionId td
    \<and> webhook_handler W2 E S1 body = (AlreadyProcessed tid, S1)
    \<and> length (qr_transactions (db S1)) = Suc (length (qr_transactions (db S)))
    \<and> sum_list (map successful_transactions (qr_daily_stats (db S1)))
        = sum_list (map successful_transactions (qr_daily_stats (db S)))
          + (if transactionStatus td = ''SUCCESS'' then 1 else 0)
    \<and> (\<exists>a. to_decimal W1 (amount td) = Some a
          \<and> sum_list (map total_amount (qr_daily_stats (db S1)))
              = sum_list (map total_amount (qr_daily_stats (db S)))
                + (if transactionStatus td = ''SUCCESS'' then a else 0))
    \<and> (\<exists>q qs a.
          filter (\<lambda>q. qc_qr_identifier q = extractQRIdentifier (merchantTxnId td))
            (qr_codes (db S)) = q # qs
          \<and> to_decimal W1 (amount td) = Some a
          \<and> qr_transactions (db S1) = qr_transactions (db S) @
               [\<lparr> t_id = next_id (qr_transactions (db S)),
                   t_transaction_id = transactionId td,
                   t_qr_code_id = qc_id q,
                   t_merchant_id = merchantId td,
                   t_amount = a,
                   t_customer_vpa = payerVPA td,
                   t_customer_name = payerName td,
                   t_reference_number = merchantTxnId td,
                   t_bank_reference_number = bankRRN td,
                   t_status = (if transactionStatus td = ''SUCCESS'' then Success else Failed),
                   t_payment_method = ''UPI'',
                   t_settlement_status =
                     (if transactionStatus td = ''SUCCESS'' then Some ''pending'' else None),
                   t_completed_at = None,
                   t_refund_amount = None,
                   t_refund_reason = None,
                   t_refund_initiated_by = None,
                   t_refund_initiated_at = None \<rparr>]
          \<and> (transactionStatus td = ''SUCCESS'' \<longrightarrow>
               daily_counters (qr_daily_stats (db S1)) (merchantId td) (qc_id q) (today W1)
                 = (case daily_counters (qr_daily_stats (db S)) (merchantId td) (qc_id q)
                           (today W1) of
                      (n, s, x, y) \<Rightarrow> (n + 1, s + 1, x + a, y + a))
               \<and> filter (\<lambda>r. \<not> (ds_merchant_id r = merchantId td \<and> ds_qr_code_id r = qc_id q
                                  \<and> ds_stat_date r = today W1)) (qr_daily_stats (db S1))
                 = filter (\<lambda>r. \<not> (ds_merchant_id r = merchantId td \<and> ds_qr_code_id r = qc_id q
                                    \<and> ds_stat_date r = today W1)) (qr_daily_stats (db S)))
          \<and> (transactionStatus td \<noteq> ''SUCCESS'' \<longrightarrow>
               qr_daily_stats (db S1) = qr_daily_stats (db S)))
    \<and> qr_codes (db S1) = qr_codes (db S)
    \<and> qr_refund_audit (db S1) = qr_refund_audit (db S)
    \<and> local_transactions S1 = local_transactions S"
proof -
  let ?st = "if transactionStatus td = ''SUCCESS'' then Success else Failed"
  let ?wd = "webhookData td ?st"
  from webhook_handler_processed [OF assms(2) assms(4)]
  have tid: "tid = transactionId td" and "process_with_status W1 E S td ?st = Inr S1"
    by simp_all
  from process_with_status_production [OF assms(1) this(2)]
  obtain d1 where d1: "processTransactionWebhook W1 (db S) ?wd = Inr d1"
    and S1: "S1 = S \<lparr> db := d1 \<rparr>"
    by blast
  from assms(3) have fresh: "\<forall>t \<in> set (qr_transactions (db S)).
                               t_transaction_id t \<noteq> wd_transaction_id ?wd"
    by (simp add: webhookData_fields)
  from processTransactionWebhook_insert [OF d1 fresh]
  obtain q qs a where
    q: "filter (\<lambda>q. qc_qr_identifier q = extractQRIdentifier (merchantTxnId td))
          (qr_codes (db S)) = q # qs"
    and a: "to_decimal W1 (amount td) = Some a"
    and d1_eq: "d1 = log_webhook_event
                 (if wd_status ?wd = Success
                  then ((db S) \<lparr> qr_transactions := qr_transactions (db S)
                                  @ [new_row (db S) ?wd q a] \<rparr>)
                         \<lparr> qr_daily_stats := upsert_stats (wd_merchant_id ?wd) (qc_id q)
                              (today W1) a (qr_daily_stats (db S)) \<rparr>
                  else (db S) \<lparr> qr_transactions := qr_transactions (db S)
                                  @ [new_row (db S) ?wd q a] \<rparr>) ?wd"
    unfolding webhookData_fields by blast
  have succ: "(wd_status ?wd = Success) = (transactionStatus td = ''SUCCESS'')"
    by (simp add: webhookData_fields)
  have rows: "qr_transactions d1 = qr_transactions (db S) @ [new_row (db S) ?wd q a]"
    by (simp add: d1_eq log_webhook_event_def)
  have stats: "qr_daily_stats d1 =
                  (if transactionStatus td = ''SUCCESS''
                   then upsert_stats (merchantId td) (qc_id q) (today W1) a
                          (qr_daily_stats (db S))
                   else qr_daily_stats (db S))"
    by (simp add: d1_eq log_webhook_event_def succ webhookData_fields)
  have codes: "qr_codes d1 = qr_codes (db S)" "qr_refund_audit d1 = qr_refund_audit (db S)"
    by (simp_all add: d1_eq log_webhook_event_def)
  have "t_transaction_id (new_row (db S) ?wd q a) = transactionId td"
    and "t_merchant_id (new_row (db S) ?wd q a) = merchantId td"
    by (simp_all add: new_row_def webhookData_def)
  then have "filter (\<lambda>t. t_transaction_id t = transactionId td \<and> t_merchant_id t = merchantId td)
               (qr_transactions d1) \<noteq> []"
    by (simp add: rows)
  then have dup: "checkDuplicate W2 (db S1) (transactionId td) (merchantId td)"
    using assms(8)
    by (auto simp: checkDuplicate_def getTransactionDetails_def S1 split: list.splits)
  have "webhook_decode W2 E body = Inr td"
    using webhook_decode_cong [OF assms(5) assms(6) assms(7)] assms(2) by simp
  with dup have second: "webhook_handler W2 E S1 body = (AlreadyProcessed tid, S1)"
    by (simp add: webhook_handler_def webhook_check_def tid)
  have len: "length (qr_transactions (db S1)) = Suc (length (qr_transactions (db S)))"
    by (simp add: S1 rows)
  have cnt: "sum_list (map successful_transactions (qr_daily_stats (db S1)))
               = sum_list (map successful_transactions (qr_daily_stats (db S)))
                 + (if transactionStatus td = ''SUCCESS'' then 1 else 0)"
    by (simp add: S1 stats upsert_stats_successful)
  have amt: "sum_list (map total_amount (qr_daily_stats (db S1)))
               = sum_list (map total_amount (qr_daily_stats (db S)))
                 + (if transactionStatus td = ''SUCCESS'' then a else 0)"
    by (simp add: S1 stats upsert_stats_amount)
  have row: "qr_transactions (db S1) = qr_transactions (db S) @
               [\<lparr> t_id = next_id (qr_transactions (db S)),
                   t_transaction_id = transactionId td,
                   t_qr_code_id = qc_id q,
                   t_merchant_id = merchantId td,
                   t_amount = a,
                   t_customer_vpa = payerVPA td,
                   t_customer_name = payerName td,
                   t_reference_number = merchantTxnId td,
                   t_bank_reference_number = bankRRN td,
                   t_status = (if transactionStatus td = ''SUCCESS'' then Success else Failed),
                   t_payment_method = ''UPI'',
                   t_settlement_status =
                     (if transactionStatus td = ''SUCCESS'' then Some ''pending'' else None),
                   t_completed_at = None,
                   t_refund_amount = None,
                   t_refund_reason = None,
                   t_refund_initiated_by = None,
                   t_refund_initiated_at = None \<rparr>]"
    using rows by (simp add: S1 new_row_webhookData)
  have key: "transactionStatus td = ''SUCCESS'' \<longrightarrow>
               daily_counters (qr_daily_stats (db S1)) (merchantId td) (qc_id q) (today W1)
                 = (case daily_counters (qr_daily_stats (db S)) (merchantId td) (qc_id q)
                           (today W1) of
                      (n, s, x, y) \<Rightarrow> (n + 1, s + 1, x + a, y + a))
               \<and> filter (\<lambda>r. \<not> (ds_merchant_id r = merchantId td \<and> ds_qr_code_id r = qc_id q
                                  \<and> ds_stat_date r = today W1)) (qr_daily_stats (db S1))
                 = filter (\<lambda>r. \<not> (ds_merchant_id r = merchantId td \<and> ds_qr_code_id r = qc_id q
                                    \<and> ds_stat_date r = today W1)) (qr_daily_stats (db S))"
  proof (intro impI conjI)
    assume "transactionStatus td = ''SUCCESS''"
    then have st: "qr_daily_stats (db S1)
                     = upsert_stats (merchantId td) (qc_id q) (today W1) a
                         (qr_daily_stats (db S))"
      by (simp add: S1 stats)
    show "daily_counters (qr_daily_stats (db S1)) (merchantId td) (qc_id q) (today W1)
            = (case daily_counters (qr_daily_stats (db S)) (merchantId td) (qc_id q)
                      (today W1) of
                 (n, s, x, y) \<Rightarrow> (n + 1, s + 1, x + a, y + a))"
      by (simp only: st daily_counters_upsert)
    show "filter (\<lambda>r. \<not> (ds_merchant_id r = merchantId td \<and> ds_qr_code_id r = qc_id q
                          \<and> ds_stat_date r = today W1)) (qr_daily_stats (db S1))
            = filter (\<lambda>r. \<not> (ds_merchant_id r = merchantId td \<and> ds_qr_code_id r = qc_id q
                              \<and> ds_stat_date r = today W1)) (qr_daily_stats (db S))"
      by (simp only: st other_rows_upsert)
  qed
  have nokey: "transactionStatus td \<noteq> ''SUCCESS'' \<longrightarrow>
                 qr_daily_stats (db S1) = qr_daily_stats (db S)"
    by (simp add: S1 stats)
  have rest: "qr_codes (db S1) = qr_codes (db S)"
    "qr_refund_audit (db S1) = qr_refund_audit (db S)"
    "local_transactions S1 = local_transactions S"
    by (simp_all add: S1 codes)
  from q a row key nokey have ex: "\<exists>q qs a.
          filter (\<lambda>q. qc_qr_identifier q = extractQRIdentifier (merchantTxnId td))
            (qr_codes (db S)) = q # qs
          \<and> to_decimal W1 (amount td) = Some a
          \<and> qr_transactions (db S1) = qr_transactions (db S) @
               [\<lparr> t_id = next_id (qr_transactions (db S)),
                   t_transaction_id = transactionId td,
                   t_qr_code_id = qc_id q,
                   t_merchant_id = merchantId td,
                   t_amount = a,
                   t_customer_vpa = payerVPA td,
                   t_customer_name = payerName td,
                   t_reference_number = merchantTxnId td,
                   t_bank_reference_number = bankRRN td,
                   t_status = (if transactionStatus td = ''SUCCESS'' then Success else Failed),
                   t_payment_method = ''UPI'',
                   t_settlement_status =
                     (if transactionStatus td = ''SUCCESS'' then Some ''pending'' else None),
                   t_completed_at = None,
                   t_refund_amount = None,
                   t_refund_reason = None,
                   t_refund_initiated_by = None,
                   t_refund_initiated_at = None \<rparr>]
          \<and> (transactionStatus td = ''SUCCESS'' \<longrightarrow>
               daily_counters (qr_daily_stats (db S1)) (merchantId td) (qc_id q) (today W1)
                 = (case daily_counters (qr_daily_stats (db S)) (merchantId td) (qc_id q)
                           (today W1) of
                      (n, s, x, y) \<Rightarrow> (n + 1, s + 1, x + a, y + a))
               \<and> filter (\<lambda>r. \<not> (ds_merchant_id r = merchantId td \<and> ds_qr_code_id r = qc_id q
                                  \<and> ds_stat_date r = today W1)) (qr_daily_stats (db S1))
                 = filter (\<lambda>r. \<not> (ds_merchant_id r = merchantId td \<and> ds_qr_code_id r = qc_id q
                                    \<and> ds_stat_date r = today W1)) (qr_daily_stats (db S)))
          \<and> (transactionStatus td \<noteq> ''SUCCESS'' \<longrightarrow>
               qr_daily_stats (db S1) = qr_daily_stats (db S))"
    by (intro exI [of _ q] exI [of _ qs] exI [of _ a] conjI)
  from a amt have ex_amt: "\<exists>a. to_decimal W1 (amount td) = Some a
          \<and> sum_list (map total_amount (qr_daily_stats (db S1)))
              = sum_list (map total_amount (qr_daily_stats (db S)))
                + (if transactionStatus td = ''SUCCESS'' then a else 0)"
    by (intro exI [of _ a] conjI)
  from tid second len cnt ex_amt ex rest show ?thesis
    by (intro conjI)
qed

lemma handler_signed_on_busy:
  "webhook_handler sample_world production busy_store signed_request
     = (ProcessedSuccessfully ''TXN1'',
        busy_store \<lparr> db := log_webhook_event
          ((busy_database \<lparr> qr_transactions := qr_transactions busy_database
               @ [new_row busy_database (webhookData signed_data Success)
                    \<lparr> qc_id = 7, qc_qr_identifier = ''ABCDE'' \<rparr> 100] \<rparr>)
             \<lparr> qr_daily_stats := upsert_stats ''M1'' 7 ''2024-01-01'' 100
                  (qr_daily_stats busy_database) \<rparr>)
          (webhookData signed_data Success) \<rparr>)"
proof -
  have "\<not> checkDuplicate sample_world (db busy_store) ''TXN1'' ''M1''"
    by (simp add: checkDuplicate_def getTransactionDetails_def busy_store_def
        busy_database_def sample_world_def)
  then have c: "webhook_check sample_world production busy_store signed_request
                  = Proceed signed_data"
    by (simp add: webhook_check_def decode_signed_request signed_data_valid)
  have ts: "\<not> js_gt (hours_since sample_world (transactionDateTime signed_data)) (Fin 24)"
    by (simp add: sample_world_def js_gt_def)
  have sf: "store_fault sample_world = None" "today sample_world = ''2024-01-01''"
    "to_decimal sample_world (wd_amount (webhookData signed_data Success)) = Some 100"
    by (simp_all add: sample_world_def signed_webhookData)
  have q: "filter (\<lambda>q. qc_qr_identifier q = wd_qr_identifier (webhookData signed_data Success))
             (qr_codes busy_database) = [\<lparr> qc_id = 7, qc_qr_identifier = ''ABCDE'' \<rparr>]"
    by (simp add: busy_database_def signed_webhookData)
  have fresh: "\<forall>t \<in> set (qr_transactions busy_database).
                 t_transaction_id t \<noteq> wd_transaction_id (webhookData signed_data Success)"
    by (simp add: busy_database_def signed_webhookData)
  have p: "processTransactionWebhook sample_world (db busy_store)
             (webhookData signed_data Success)
           = Inr (log_webhook_event
          ((busy_database \<lparr> qr_transactions := qr_transactions busy_database
               @ [new_row busy_database (webhookData signed_data Success)
                    \<lparr> qc_id = 7, qc_qr_identifier = ''ABCDE'' \<rparr> 100] \<rparr>)
             \<lparr> qr_daily_stats := upsert_stats ''M1'' 7 ''2024-01-01'' 100
                  (qr_daily_stats busy_database) \<rparr>)
          (webhookData signed_data Success))"
    using processTransactionWebhook_fresh [OF sf(1) q sf(3) fresh]
    by (simp add: busy_store_def signed_webhookData sf(2))
  have "webhook_process sample_world production busy_store signed_data
          = (ProcessedSuccessfully ''TXN1'',
             busy_store \<lparr> db := log_webhook_event
          ((busy_database \<lparr> qr_transactions := qr_transactions busy_database
               @ [new_row busy_database (webhookData signed_data Success)
                    \<lparr> qc_id = 7, qc_qr_identifier = ''ABCDE'' \<rparr> 100] \<rparr>)
             \<lparr> qr_daily_stats := upsert_stats ''M1'' 7 ''2024-01-01'' 100
                  (qr_daily_stats busy_database) \<rparr>)
          (webhookData signed_data Success) \<rparr>)"
    by (simp add: webhook_process_production [OF signed_data_valid(6) signed_data_valid(1) ts]
        signed_data_valid p)
  with c show ?thesis
    by (simp add: webhook_handler_def)
qed

theorem sequential_redelivery_idempotent_witness:
  "NODE_ENV production \<noteq> Some ''development''
   \<and> webhook_decode sample_world production signed_request = Inr signed_data
   \<and> map t_transaction_id (qr_transactions (db busy_store)) = [''TXN0'']
   \<and> fst (webhook_handler sample_world production busy_store signed_request)
       = ProcessedSuccessfully ''TXN1''
   \<and> lookup_fault sample_world = None
   \<and> webhook_handler sample_world production
         (snd (webhook_handler sample_world production busy_store signed_request))
         signed_request
       = (AlreadyProcessed ''TXN1'',
          snd (webhook_handler sample_world production busy_store signed_request))
   \<and> daily_counters (qr_daily_stats (db busy_store)) ''M1'' 7 ''2024-01-01''
       = (3, 3, 250, 250)
   \<and> daily_counters (qr_daily_stats (db (snd
         (webhook_handler sample_world production busy_store signed_request))))
         ''M1'' 7 ''2024-01-01''
       = (4, 4, 350, 350)
   \<and> daily_counters (qr_daily_stats (db (snd
         (webhook_handler sample_world production busy_store signed_request))))
         ''M9'' 7 ''2024-01-01''
       = (5, 5, 500, 500)
   \<and> map t_transaction_id (qr_transactions (db (snd
         (webhook_handler sample_world production busy_store signed_request))))
       = [''TXN0'', ''TXN1'']"
proof -
  let ?H = "webhook_handler sample_world production busy_store signed_request"
  have fresh: "\<forall>t \<in> set (qr_transactions (db busy_store)).
                 t_transaction_id t \<noteq> transactionId signed_data"
    by (simp add: busy_store_def busy_database_def signed_data_valid)
  have ids: "map t_transaction_id (qr_transactions (db busy_store)) = [''TXN0'']"
    by (simp add: busy_store_def busy_database_def)
  have lf: "lookup_fault sample_world = None" and today: "today sample_world = ''2024-01-01''"
    by (simp_all add: sample_world_def)
  have H: "?H = (ProcessedSuccessfully ''TXN1'', snd ?H)"
    by (simp add: handler_signed_on_busy)
  have old: "daily_counters (qr_daily_stats (db busy_store)) ''M1'' 7 ''2024-01-01''
               = (3, 3, 250, 250)"
    by (simp add: daily_counters_def busy_store_def busy_database_def)
  have other: "daily_counters (qr_daily_stats (db (snd ?H))) ''M9'' 7 ''2024-01-01''
                 = (5, 5, 500, 500)"
    by (simp add: handler_signed_on_busy log_webhook_event_def daily_counters_def
        busy_database_def)
  note T = sequential_redelivery_idempotent [OF signed_data_valid(6) decode_signed_request
      fresh H refl refl refl lf]
  from T have second: "webhook_handler sample_world production (snd ?H) signed_request
                         = (AlreadyProcessed ''TXN1'', snd ?H)"
    by blast
  from T obtain q qs a where
    q: "filter (\<lambda>q. qc_qr_identifier q = extractQRIdentifier (merchantTxnId signed_data))
          (qr_codes (db busy_store)) = q # qs"
    and a: "to_decimal sample_world (amount signed_data) = Some a"
    and rows: "map t_transaction_id (qr_transactions (db (snd ?H)))
                 = map t_transaction_id (qr_transactions (db busy_store))
                   @ [transactionId signed_data]"
    and cnt: "daily_counters (qr_daily_stats (db (snd ?H))) (merchantId signed_data) (qc_id q)
                (today sample_world)
              = (case daily_counters (qr_daily_stats (db busy_store)) (merchantId signed_data)
                        (qc_id q) (today sample_world) of
                   (n, s, x, y) \<Rightarrow> (n + 1, s + 1, x + a, y + a))"
    using signed_data_valid(2) by auto
  from q have "qc_id q = 7"
    using signed_webhookData(2)
    by (auto simp: busy_store_def busy_database_def webhookData_fields)
  moreover from a have "a = 100"
    by (simp add: sample_world_def signed_data_def)
  ultimately have new: "daily_counters (qr_daily_stats (db (snd ?H))) ''M1'' 7 ''2024-01-01''
                          = (4, 4, 350, 350)"
    using cnt old by (simp add: signed_data_valid today)
  from rows ids have ids': "map t_transaction_id (qr_transactions (db (snd ?H)))
                              = [''TXN0'', ''TXN1'']"
    by (simp add: signed_data_valid)
  have fstH: "fst ?H = ProcessedSuccessfully ''TXN1''"
    by (simp add: handler_signed_on_busy)
  from signed_data_valid(6) decode_signed_request ids fstH lf second old new other ids'
  show ?thesis
    by (intro conjI)
qed

section \<open>Status changes\<close>
















section \<open>A duplicate lookup that fails\<close>

text \<open>What the processing of a transaction id that is stored writes.\<close>

lemma processTransactionWebhook_stored:
  assumes "store_fault W = None"
    and "filter (\<lambda>q. qc_qr_identifier q = wd_qr_identifier wd) (qr_codes d) = q # qs"
    and "wd_status wd = Success \<longrightarrow> to_decimal W (wd_amount wd) = Some a"
    and "\<exists>t \<in> set (qr_transactions d). t_transaction_id t = wd_transaction_id wd"
  shows "processTransactionWebhook W d wd =
           Inr (log_webhook_event
                 (if wd_status wd = Success
                  then (d \<lparr> qr_transactions := map (update_existing W wd) (qr_transactions d) \<rparr>)
                         \<lparr> qr_daily_stats := upsert_stats (wd_merchant_id wd) (qc_id q)
                              (today W) a (qr_daily_stats d) \<rparr>
                  else d \<lparr> qr_transactions := map (update_existing W wd) (qr_transactions d) \<rparr>)
                 wd)"
proof -
  from assms(4) obtain t ts where
    t: "filter (\<lambda>t. t_transaction_id t = wd_transaction_id wd) (qr_transactions d) = t # ts"
    by (cases "filter (\<lambda>t. t_transaction_id t = wd_transaction_id wd) (qr_transactions d)")
       (auto simp: filter_empty_iff)
  show ?thesis
    using assms(3)
    by (simp add: processTransactionWebhook_def upsert_transaction_def updateDailyStats_def
        assms(1) assms(2) t)
qed

lemma update_existing_webhookData:
  "update_existing W (webhookData td
       (if transactionStatus td = ''SUCCESS'' then Success else Failed))
     = (\<lambda>t. if t_transaction_id t = transactionId td
             then t \<lparr> t_status := (if transactionStatus td = ''SUCCESS'' then Success else Failed),
                      t_bank_reference_number := bankRRN td,
                      t_completed_at := Some (current_timestamp W),
                      t_settlement_status :=
                        (if transactionStatus td = ''SUCCESS'' then Some ''pending''
                         else t_settlement_status t) \<rparr>
             else t)"
  by (intro ext) (simp add: update_existing_def webhookData_def)

lemma lookup_down_decode:
  "webhook_decode lookup_down production signed_request = Inr signed_data"
proof -
  have "webhook_decode lookup_down production signed_request
          = webhook_decode sample_world production signed_request"
    by (rule webhook_decode_cong) (simp_all add: lookup_down_def)
  then show ?thesis
    by (simp add: decode_signed_request)
qed

lemma lookup_down_fields:
  "store_fault lookup_down = None"
  "today lookup_down = ''2024-01-01''"
  "current_timestamp lookup_down = ''2024-01-01 00:00:00''"
  "to_decimal lookup_down (Fin 100) = Some 100"
  "\<not> js_gt (hours_since lookup_down (transactionDateTime signed_data)) (Fin 24)"
  "getTransactionDetails lookup_down d tid mid = Inl (StorageError ''connection lost'')"
  by (simp_all add: lookup_down_def sample_world_def js_gt_def getTransactionDetails_def)

text \<open>
  C10, as stated, fails: the signed payload is delivered again to the store that holds its
  transaction, while the duplicate lookup fails. The request is answered as processed, but
  it has not gone down the insert path: no row has been inserted, the stored row has been
  updated, and the daily counters of the merchant count the payment a second time.
\<close>

theorem failed_lookup_updates_stored_transaction:
  "getTransactionDetails lookup_down (db paid_store) ''TXN1'' ''M1''
     = Inl (StorageError ''connection lost'')
   \<and> fst (webhook_handler lookup_down production paid_store signed_request)
       = ProcessedSuccessfully ''TXN1''
   \<and> map t_transaction_id (qr_transactions (db paid_store)) = [''TXN1'']
   \<and> map t_completed_at (qr_transactions (db paid_store)) = [None]
   \<and> daily_counters (qr_daily_stats (db paid_store)) ''M1'' 7 ''2024-01-01''
       = (1, 1, 100, 100)
   \<and> map t_transaction_id (qr_transactions (db (snd
         (webhook_handler lookup_down production paid_store signed_request))))
       = [''TXN1'']
   \<and> map t_completed_at (qr_transactions (db (snd
         (webhook_handler lookup_down production paid_store signed_request))))
       = [Some ''2024-01-01 00:00:00'']
   \<and> daily_counters (qr_daily_stats (db (snd
         (webhook_handler lookup_down production paid_store signed_request))))
         ''M1'' 7 ''2024-01-01''
       = (2, 2, 200, 200)"
proof -
  let ?wd = "webhookData signed_data Success"
  have c: "webhook_check lookup_down production paid_store signed_request
             = Proceed signed_data"
    by (simp add: webhook_check_def lookup_down_decode checkDuplicate_def lookup_down_fields)
  have q: "filter (\<lambda>q. qc_qr_identifier q = wd_qr_identifier ?wd) (qr_codes paid_database)
             = [\<lparr> qc_id = 7, qc_qr_identifier = ''ABCDE'' \<rparr>]"
    by (simp add: paid_database_def signed_webhookData)
  have a: "wd_status ?wd = Success \<longrightarrow> to_decimal lookup_down (wd_amount ?wd) = Some 100"
    by (simp add: signed_webhookData lookup_down_fields)
  have stored: "\<exists>t \<in> set (qr_transactions paid_database).
                  t_transaction_id t = wd_transaction_id ?wd"
    by (simp add: paid_database_def signed_webhookData)
  note p = processTransactionWebhook_stored [OF lookup_down_fields(1) q a stored]
  have w: "webhook_process lookup_down production paid_store signed_data
             = (ProcessedSuccessfully ''TXN1'',
                paid_store \<lparr> db := log_webhook_event
                  ((paid_database \<lparr> qr_transactions :=
                       map (update_existing lookup_down ?wd) (qr_transactions paid_database) \<rparr>)
                     \<lparr> qr_daily_stats := upsert_stats ''M1'' 7 ''2024-01-01'' 100
                          (qr_daily_stats paid_database) \<rparr>) ?wd \<rparr>)"
    using p
    by (simp add: webhook_process_production [OF signed_data_valid(6) signed_data_valid(1)
          lookup_down_fields(5)] signed_data_valid paid_store_def signed_webhookData
        lookup_down_fields)
  have h: "webhook_handler lookup_down production paid_store signed_request
             = (ProcessedSuccessfully ''TXN1'',
                paid_store \<lparr> db := log_webhook_event
                  ((paid_database \<lparr> qr_transactions :=
                       map (update_existing lookup_down ?wd) (qr_transactions paid_database) \<rparr>)
                     \<lparr> qr_daily_stats := upsert_stats ''M1'' 7 ''2024-01-01'' 100
                          (qr_daily_stats paid_database) \<rparr>) ?wd \<rparr>)"
    by (simp add: webhook_handler_def c w)
  show ?thesis
    unfolding h
    by (simp add: lookup_down_fields paid_store_def paid_database_def log_webhook_event_def
        update_existing_def signed_webhookData daily_counters_def)
qed

text \<open>
  C10, amended. When the lookup of \<open>getTransactionDetails\<close> fails, with whatever error,
  \<open>checkDuplicate\<close> answers false: a request that has been decoded is then not answered with
  that error, nor as a duplicate, but goes on to validation and processing as a first
  delivery does. Outside development, when the amount and the time stamp pass validation,
  the QR code is known and the storage calls of the processing succeed, the request is
  answered as processed; a transaction id that is not stored yet is inserted, one that is
  stored is not inserted again but updated; and for a successful payment the daily
  counters of the merchant are raised in both cases.
\<close>

theorem failed_lookup_is_not_duplicate:
  assumes "webhook_decode W E body = Inr td"
    and "getTransactionDetails W (db S) (transactionId td) (merchantId td) = Inl e"
  shows "\<not> checkDuplicate W (db S) (transactionId td) (merchantId td)
    \<and> webhook_check W E S body = Proceed td
    \<and> webhook_handler W E S body = webhook_process W E S td
    \<and> (NODE_ENV E \<noteq> Some ''development'' \<longrightarrow>
        validateAmount (amount td) = Inr True \<longrightarrow>
        \<not> js_gt (hours_since W (transactionDateTime td)) (Fin 24) \<longrightarrow>
        store_fault W = None \<longrightarrow>
        filter (\<lambda>q. qc_qr_identifier q = extractQRIdentifier (merchantTxnId td))
          (qr_codes (db S)) = q # qs \<longrightarrow>
        to_decimal W (amount td) = Some a \<longrightarrow>
          fst (webhook_handler W E S body) = ProcessedSuccessfully (transactionId td)
          \<and> ((\<forall>t \<in> set (qr_transactions (db S)). t_transaction_id t \<noteq> transactionId td) \<longrightarrow>
               qr_transactions (db (snd (webhook_handler W E S body)))
                 = qr_transactions (db S) @
                     [\<lparr> t_id = next_id (qr_transactions (db S)),
                   t_transaction_id = transactionId td,
                   t_qr_code_id = qc_id q,
                   t_merchant_id = merchantId td,
                   t_amount = a,
                   t_customer_vpa = payerVPA td,
                   t_customer_name = payerName td,
                   t_reference_number = merchantTxnId td,
                   t_bank_reference_number = bankRRN td,
                   t_status = (if transactionStatus td = ''SUCCESS'' then Success else Failed),
                   t_payment_method = ''UPI'',
                   t_settlement_status =
                     (if transactionStatus td = ''SUCCESS'' then Some ''pending'' else None),
                   t_completed_at = None,
                   t_refund_amount = None,
                   t_refund_reason = None,
                   t_refund_initiated_by = None,
                   t_refund_initiated_at = None \<rparr>])
          \<and> ((\<exists>t \<in> set (qr_transactions (db S)). t_transaction_id t = transactionId td) \<longrightarrow>
               qr_transactions (db (snd (webhook_handler W E S body)))
                 = map (\<lambda>t. if t_transaction_id t = transactionId td
                            then t \<lparr> t_status := (if transactionStatus td = ''SUCCESS''
                                                  then Success else Failed),
                                     t_bank_reference_number := bankRRN td,
                                     t_completed_at := Some (current_timestamp W),
                                     t_settlement_status :=
                                       (if transactionStatus td = ''SUCCESS''
                                        then Some ''pending'' else t_settlement_status t) \<rparr>
                            else t) (qr_transactions (db S)))
          \<and> (transactionStatus td = ''SUCCESS'' \<longrightarrow>
               daily_counters (qr_daily_stats (db (snd (webhook_handler W E S body))))
                   (merchantId td) (qc_id q) (today W)
                 = (case daily_counters (qr_daily_stats (db S)) (merchantId td) (qc_id q)
                           (today W) of
                      (n, s, x, y) \<Rightarrow> (n + 1, s + 1, x + a, y + a)))
          \<and> (transactionStatus td \<noteq> ''SUCCESS'' \<longrightarrow>
               qr_daily_stats (db (snd (webhook_handler W E S body)))
                 = qr_daily_stats (db S)))"
proof -
  let ?st = "if transactionStatus td = ''SUCCESS'' then Success else Failed"
  let ?wd = "webhookData td ?st"
  let ?H = "webhook_handler W E S body"
  from assms have nd: "\<not> checkDuplicate W (db S) (transactionId td) (merchantId td)"
    by (simp add: checkDuplicate_def)
  with assms(1) have c: "webhook_check W E S body = Proceed td"
    by (simp add: webhook_check_def)
  then have h: "?H = webhook_process W E S td"
    by (simp add: webhook_handler_def)
  have main: "fst ?H = ProcessedSuccessfully (transactionId td)
          \<and> ((\<forall>t \<in> set (qr_transactions (db S)). t_transaction_id t \<noteq> transactionId td) \<longrightarrow>
               qr_transactions (db (snd ?H))
                 = qr_transactions (db S) @
                     [\<lparr> t_id = next_id (qr_transactions (db S)),
                   t_transaction_id = transactionId td,
                   t_qr_code_id = qc_id q,
                   t_merchant_id = merchantId td,
                   t_amount = a,
                   t_customer_vpa = payerVPA td,
                   t_customer_name = payerName td,
                   t_reference_number = merchantTxnId td,
                   t_bank_reference_number = bankRRN td,
                   t_status = (if transactionStatus td = ''SUCCESS'' then Success else Failed),
                   t_payment_method = ''UPI'',
                   t_settlement_status =
                     (if transactionStatus td = ''SUCCESS'' then Some ''pending'' else None),
                   t_completed_at = None,
                   t_refund_amount = None,
                   t_refund_reason = None,
                   t_refund_initiated_by = None,
                   t_refund_initiated_at = None \<rparr>])
          \<and> ((\<exists>t \<in> set (qr_transactions (db S)). t_transaction_id t = transactionId td) \<longrightarrow>
               qr_transactions (db (snd ?H))
                 = map (\<lambda>t. if t_transaction_id t = transactionId td
                            then t \<lparr> t_status := (if transactionStatus td = ''SUCCESS''
                                                  then Success else Failed),
                                     t_bank_reference_number := bankRRN td,
                                     t_completed_at := Some (current_timestamp W),
                                     t_settlement_status :=
                                       (if transactionStatus td = ''SUCCESS''
                                        then Some ''pending'' else t_settlement_status t) \<rparr>
                            else t) (qr_transactions (db S)))
          \<and> (transactionStatus td = ''SUCCESS'' \<longrightarrow>
               daily_counters (qr_daily_stats (db (snd ?H)))
                   (merchantId td) (qc_id q) (today W)
                 = (case daily_counters (qr_daily_stats (db S)) (merchantId td) (qc_id q)
                           (today W) of
                      (n, s, x, y) \<Rightarrow> (n + 1, s + 1, x + a, y + a)))
          \<and> (transactionStatus td \<noteq> ''SUCCESS'' \<longrightarrow>
               qr_daily_stats (db (snd ?H)) = qr_daily_stats (db S))"
    if prod: "NODE_ENV E \<noteq> Some ''development''"
      and va: "validateAmount (amount td) = Inr True"
      and ts: "\<not> js_gt (hours_since W (transactionDateTime td)) (Fin 24)"
      and sf: "store_fault W = None"
      and q: "filter (\<lambda>q. qc_qr_identifier q = extractQRIdentifier (merchantTxnId td))
                (qr_codes (db S)) = q # qs"
      and a: "to_decimal W (amount td) = Some a"
  proof -
    note wp = webhook_process_production [OF prod va ts, of S]
    have q': "filter (\<lambda>q. qc_qr_identifier q = wd_qr_identifier ?wd) (qr_codes (db S)) = q # qs"
      using q by (simp add: webhookData_fields)
    have a': "to_decimal W (wd_amount ?wd) = Some a"
      using a by (simp add: webhookData_fields)
    have succ: "(wd_status ?wd = Success) = (transactionStatus td = ''SUCCESS'')"
      by (simp add: webhookData_fields)
    show ?thesis
    proof (cases "\<exists>t \<in> set (qr_transactions (db S)). t_transaction_id t = transactionId td")
      case True
      then have st: "\<exists>t \<in> set (qr_transactions (db S)).
                       t_transaction_id t = wd_transaction_id ?wd"
        by (simp add: webhookData_fields)
      from a' have a'': "wd_status ?wd = Success \<longrightarrow> to_decimal W (wd_amount ?wd) = Some a"
        by simp
      have "\<exists>d1. processTransactionWebhook W (db S) ?wd = Inr d1
              \<and> qr_transactions d1 = map (update_existing W ?wd) (qr_transactions (db S))
              \<and> qr_daily_stats d1 =
                     (if transactionStatus td = ''SUCCESS''
                      then upsert_stats (merchantId td) (qc_id q) (today W) a
                             (qr_daily_stats (db S))
                      else qr_daily_stats (db S))"
        unfolding processTransactionWebhook_stored [OF sf q' a'' st]
        by (simp add: log_webhook_event_def webhookData_fields)
      then obtain d1 where p: "processTransactionWebhook W (db S) ?wd = Inr d1"
        and rows: "qr_transactions d1 = map (update_existing W ?wd) (qr_transactions (db S))"
        and stats: "qr_daily_stats d1 =
                     (if transactionStatus td = ''SUCCESS''
                      then upsert_stats (merchantId td) (qc_id q) (today W) a
                             (qr_daily_stats (db S))
                      else qr_daily_stats (db S))"
        by blast
      have H: "?H = (ProcessedSuccessfully (transactionId td), S \<lparr> db := d1 \<rparr>)"
        unfolding h wp p by simp
      have 1: "fst ?H = ProcessedSuccessfully (transactionId td)"
        by (simp add: H)
      have 3: "qr_transactions (db (snd ?H))
                 = map (\<lambda>t. if t_transaction_id t = transactionId td
                            then t \<lparr> t_status := (if transactionStatus td = ''SUCCESS''
                                                  then Success else Failed),
                                     t_bank_reference_number := bankRRN td,
                                     t_completed_at := Some (current_timestamp W),
                                     t_settlement_status :=
                                       (if transactionStatus td = ''SUCCESS''
                                        then Some ''pending'' else t_settlement_status t) \<rparr>
                            else t) (qr_transactions (db S))"
        unfolding H by (simp add: rows update_existing_webhookData)
      have 4: "transactionStatus td = ''SUCCESS'' \<longrightarrow>
               daily_counters (qr_daily_stats (db (snd ?H)))
                   (merchantId td) (qc_id q) (today W)
                 = (case daily_counters (qr_daily_stats (db S)) (merchantId td) (qc_id q)
                           (today W) of
                      (n, s, x, y) \<Rightarrow> (n + 1, s + 1, x + a, y + a))"
      proof
        assume s: "transactionStatus td = ''SUCCESS''"
        have "qr_daily_stats (db (snd ?H))
                = upsert_stats (merchantId td) (qc_id q) (today W) a (qr_daily_stats (db S))"
          unfolding H using stats s by simp
        then show "daily_counters (qr_daily_stats (db (snd ?H)))
                   (merchantId td) (qc_id q) (today W)
                 = (case daily_counters (qr_daily_stats (db S)) (merchantId td) (qc_id q)
                           (today W) of
                      (n, s, x, y) \<Rightarrow> (n + 1, s + 1, x + a, y + a))"
          by (simp only: daily_counters_upsert)
      qed
      have 5: "transactionStatus td \<noteq> ''SUCCESS'' \<longrightarrow>
               qr_daily_stats (db (snd ?H)) = qr_daily_stats (db S)"
        unfolding H using stats by simp
      from True 1 3 4 5 show ?thesis
        by blast
    next
      case False
      then have fresh: "\<forall>t \<in> set (qr_transactions (db S)).
                          t_transaction_id t \<noteq> wd_transaction_id ?wd"
        by (simp add: webhookData_fields)
      have "\<exists>d1. processTransactionWebhook W (db S) ?wd = Inr d1
              \<and> qr_transactions d1 = qr_transactions (db S) @ [new_row (db S) ?wd q a]
              \<and> qr_daily_stats d1 =
                     (if transactionStatus td = ''SUCCESS''
                      then upsert_stats (merchantId td) (qc_id q) (today W) a
                             (qr_daily_stats (db S))
                      else qr_daily_stats (db S))"
        unfolding processTransactionWebhook_fresh [OF sf q' a' fresh]
        by (simp add: log_webhook_event_def webhookData_fields)
      then obtain d1 where p: "processTransactionWebhook W (db S) ?wd = Inr d1"
        and rows: "qr_transactions d1 = qr_transactions (db S) @ [new_row (db S) ?wd q a]"
        and stats: "qr_daily_stats d1 =
                     (if transactionStatus td = ''SUCCESS''
                      then upsert_stats (merchantId td) (qc_id q) (today W) a
                             (qr_daily_stats (db S))
                      else qr_daily_stats (db S))"
        by blast
      have H: "?H = (ProcessedSuccessfully (transactionId td), S \<lparr> db := d1 \<rparr>)"
        unfolding h wp p by simp
      have 1: "fst ?H = ProcessedSuccessfully (transactionId td)"
        by (simp add: H)
      have 2: "qr_transactions (db (snd ?H))
                 = qr_transactions (db S) @
                     [\<lparr> t_id = next_id (qr_transactions (db S)),
                   t_transaction_id = transactionId td,
                   t_qr_code_id = qc_id q,
                   t_merchant_id = merchantId td,
                   t_amount = a,
                   t_customer_vpa = payerVPA td,
                   t_customer_name = payerName td,
                   t_reference_number = merchantTxnId td,
                   t_bank_reference_number = bankRRN td,
                   t_status = (if transactionStatus td = ''SUCCESS'' then Success else Failed),
                   t_payment_method = ''UPI'',
                   t_settlement_status =
                     (if transactionStatus td = ''SUCCESS'' then Some ''pending'' else None),
                   t_completed_at = None,
                   t_refund_amount = None,
                   t_refund_reason = None,
                   t_refund_initiated_by = None,
                   t_refund_initiated_at = None \<rparr>]"
        unfolding H by (simp add: rows new_row_webhookData)
      have 4: "transactionStatus td = ''SUCCESS'' \<longrightarrow>
               daily_counters (qr_daily_stats (db (snd ?H)))
                   (merchantId td) (qc_id q) (today W)
                 = (case daily_counters (qr_daily_stats (db S)) (merchantId td) (qc_id q)
                           (today W) of
                      (n, s, x, y) \<Rightarrow> (n + 1, s + 1, x + a, y + a))"
      proof
        assume s: "transactionStatus td = ''SUCCESS''"
        have "qr_daily_stats (db (snd ?H))
                = upsert_stats (merchantId td) (qc_id q) (today W) a (qr_daily_stats (db S))"
          unfolding H using stats s by simp
        then show "daily_counters (qr_daily_stats (db (snd ?H)))
                   (merchantId td) (qc_id q) (today W)
                 = (case daily_counters (qr_daily_stats (db S)) (merchantId td) (qc_id q)
                           (today W) of
                      (n, s, x, y) \<Rightarrow> (n + 1, s + 1, x + a, y + a))"
          by (simp only: daily_counters_upsert)
      qed
      have 5: "transactionStatus td \<noteq> ''SUCCESS'' \<longrightarrow>
               qr_daily_stats (db (snd ?H)) = qr_daily_stats (db S)"
        unfolding H using stats by simp
      from False 1 2 4 5 show ?thesis
        by blast
    qed
  qed
  from nd c h main show ?thesis
    by (intro conjI impI) (assumption | erule (5) conjunct1 | simp)+
qed

theorem failed_lookup_is_not_duplicate_witness:
  "webhook_decode lookup_down production signed_request = Inr signed_data
   \<and> getTransactionDetails lookup_down (db busy_store) (transactionId signed_data)
         (merchantId signed_data) = Inl (StorageError ''connection lost'')
   \<and> NODE_ENV production \<noteq> Some ''development''
   \<and> validateAmount (amount signed_data) = Inr True
   \<and> \<not> js_gt (hours_since lookup_down (transactionDateTime signed_data)) (Fin 24)
   \<and> store_fault lookup_down = None
   \<and> filter (\<lambda>q. qc_qr_identifier q = extractQRIdentifier (merchantTxnId signed_data))
         (qr_codes (db busy_store)) = [\<lparr> qc_id = 7, qc_qr_identifier = ''ABCDE'' \<rparr>]
   \<and> to_decimal lookup_down (amount signed_data) = Some 100
   \<and> map t_transaction_id (qr_transactions (db busy_store)) = [''TXN0'']
   \<and> webhook_check lookup_down production busy_store signed_request = Proceed signed_data
   \<and> fst (webhook_handler lookup_down production busy_store signed_request)
       = ProcessedSuccessfully ''TXN1''
   \<and> map t_transaction_id (qr_transactions (db (snd
         (webhook_handler lookup_down production busy_store signed_request))))
       = [''TXN0'', ''TXN1'']
   \<and> map t_amount (qr_transactions (db (snd
         (webhook_handler lookup_down production busy_store signed_request))))
       = [250, 100]
   \<and> map t_status (qr_transactions (db (snd
         (webhook_handler lookup_down production busy_store signed_request))))
       = [Success, Success]
   \<and> daily_counters (qr_daily_stats (db busy_store)) ''M1'' 7 ''2024-01-01''
       = (3, 3, 250, 250)
   \<and> daily_counters (qr_daily_stats (db (snd
         (webhook_handler lookup_down production busy_store signed_request))))
         ''M1'' 7 ''2024-01-01''
       = (4, 4, 350, 350)"
proof -
  let ?H = "webhook_handler lookup_down production busy_store signed_request"
  have l: "getTransactionDetails lookup_down (db busy_store) (transactionId signed_data)
             (merchantId signed_data) = Inl (StorageError ''connection lost'')"
    by (rule lookup_down_fields(6))
  have q: "filter (\<lambda>q. qc_qr_identifier q = extractQRIdentifier (merchantTxnId signed_data))
             (qr_codes (db busy_store)) = [\<lparr> qc_id = 7, qc_qr_identifier = ''ABCDE'' \<rparr>]"
    using signed_webhookData(2)
    by (simp add: busy_store_def busy_database_def webhookData_fields)
  have a: "to_decimal lookup_down (amount signed_data) = Some 100"
    by (simp add: signed_data_def lookup_down_fields)
  have ids: "map t_transaction_id (qr_transactions (db busy_store)) = [''TXN0'']"
    "map t_amount (qr_transactions (db busy_store)) = [250]"
    "map t_status (qr_transactions (db busy_store)) = [Success]"
    by (simp_all add: busy_store_def busy_database_def)
  have fresh: "\<forall>t \<in> set (qr_transactions (db busy_store)).
                 t_transaction_id t \<noteq> transactionId signed_data"
    by (simp add: busy_store_def busy_database_def signed_data_valid)
  have old: "daily_counters (qr_daily_stats (db busy_store)) ''M1'' 7 ''2024-01-01''
               = (3, 3, 250, 250)"
    by (simp add: daily_counters_def busy_store_def busy_database_def)
  note T = failed_lookup_is_not_duplicate [OF lookup_down_decode l,
      of "\<lparr> qc_id = 7, qc_qr_identifier = ''ABCDE'' \<rparr>" "[]" 100]
  from T have c: "webhook_check lookup_down production busy_store signed_request
                    = Proceed signed_data"
    by blast
  note U = T [THEN conjunct2, THEN conjunct2, THEN conjunct2, rule_format,
      OF signed_data_valid(6) signed_data_valid(1) lookup_down_fields(5)
         lookup_down_fields(1) q a]
  note r = U [THEN conjunct1]
  note rows = U [THEN conjunct2, THEN conjunct1, THEN mp, OF fresh]
  have s: "transactionStatus signed_data = ''SUCCESS''"
    by (simp add: signed_data_def)
  note cnt = U [THEN conjunct2, THEN conjunct2, THEN conjunct2, THEN conjunct1,
      THEN mp, OF s]
  have rows': "map t_transaction_id (qr_transactions (db (snd ?H))) = [''TXN0'', ''TXN1'']"
    "map t_amount (qr_transactions (db (snd ?H))) = [250, 100]"
    "map t_status (qr_transactions (db (snd ?H))) = [Success, Success]"
    unfolding rows using ids s by (simp_all add: signed_data_valid)
  have m: "merchantId signed_data = ''M1''" "today lookup_down = ''2024-01-01''"
    by (simp_all add: signed_data_def lookup_down_fields)
  have new: "daily_counters (qr_daily_stats (db (snd ?H))) ''M1'' 7 ''2024-01-01''
               = (4, 4, 350, 350)"
    using cnt unfolding m by (simp add: old)
  from r have r': "fst ?H = ProcessedSuccessfully ''TXN1''"
    by (simp add: signed_data_valid)
  from lookup_down_decode l signed_data_valid(6) signed_data_valid(1) lookup_down_fields(5)
    lookup_down_fields(1) q a ids(1) c r' rows' old new
  show ?thesis
    by (intro conjI)
qed

end
